theory Spec2Isabelle
  imports Main "HOL-Library.Word" "HOL-Library.Signed_Division" "HOL-Library.Sublist"
begin

section \<open>A guarded model of the C and C++ the fixtures use\<close>

text \<open>
  The repository holds two deliberately defective programs, \<^verbatim>\<open>unsafe_c_code.c\<close> and
  \<^verbatim>\<open>test_cpp_issues.cpp\<close>. Their functions are embedded over an explicit store, with every
  undefined behaviour of C (a write past the end of an array, a read of an indeterminate
  value, a division by zero, a quotient that does not fit) turned into a fault value, so
  that "the defect is reached" is a statement about the result of a function.

  \<^item> \<open>int\<close> is a 32-bit two's complement word.
  \<^item> An array of \<open>char\<close> is a list of cells, one per byte; a cell that was never written
    is \<open>None\<close>.
  \<^item> The store is the list of the arrays allocated so far (automatic arrays and heap
    blocks alike); a pointer to the start of the \<open>i\<close>-th one is \<open>Blk i\<close>, a pointer to a
    string literal is \<open>Lit s\<close>. Allocation always succeeds.
  \<^item> Standard input is the list of the bytes not read yet, standard output the list of
    the bytes written so far.
\<close>

type_synonym cint = "32 word"
type_synonym cell = "char option"

abbreviation NUL :: char where "NUL \<equiv> CHR 0x00"
abbreviation NL :: char where "NL \<equiv> CHR 0x0A"

datatype fault =
    DivideByZero
  | SignedOverflow
  | BufferOverflow
  | BufferOverread
  | UninitializedRead
  | InvalidPointer
  | WriteToLiteral
  | OverlappingCopy
  | BadFormat

datatype cptr = Lit string | Blk nat

record world =
  mem :: "cell list list"
  stdin :: string
  stdout :: string

text \<open>
  A call either returns a value in a new world, or stops at a fault in the world the
  fault happened in (so the output written before it is still there).
\<close>

datatype 'a outcome = Crash fault world | Return 'a world

fun and_then :: "'a outcome \<Rightarrow> ('a \<Rightarrow> world \<Rightarrow> 'b outcome) \<Rightarrow> 'b outcome" where
  "and_then (Crash e w) f = Crash e w"
| "and_then (Return a w) f = f a w"

definition start :: "string \<Rightarrow> world" where
  "start input = \<lparr>mem = [], stdin = input, stdout = []\<rparr>"

subsection \<open>Arithmetic\<close>

text \<open>
  The operator \<^verbatim>\<open>/\<close> on \<open>int\<close>: the quotient with the fractional part discarded; undefined
  when the divisor is zero and when the quotient is not representable.
\<close>

definition int_fits :: "int \<Rightarrow> bool" where
  "int_fits k = (- (2 ^ 31) \<le> k \<and> k < 2 ^ 31)"

definition c_div :: "cint \<Rightarrow> cint \<Rightarrow> fault + cint" where
  "c_div a b =
     (if b = 0 then Inl DivideByZero
      else if int_fits (sint a sdiv sint b) then Inr (word_of_int (sint a sdiv sint b))
      else Inl SignedOverflow)"

subsection \<open>Strings in the store\<close>

fun c_str :: "cell list \<Rightarrow> fault + string" where
  "c_str [] = Inl BufferOverread"
| "c_str (None # cs) = Inl UninitializedRead"
| "c_str (Some c # cs) =
     (if c = NUL then Inr []
      else (case c_str cs of Inl e \<Rightarrow> Inl e | Inr s \<Rightarrow> Inr (c # s)))"

definition string_at :: "world \<Rightarrow> cptr \<Rightarrow> fault + string" where
  "string_at w p =
     (case p of
        Lit s \<Rightarrow> Inr (takeWhile (\<lambda>c. c \<noteq> NUL) s)
      | Blk i \<Rightarrow> if i < length (mem w) then c_str (mem w ! i) else Inl InvalidPointer)"

definition write_bytes :: "world \<Rightarrow> cptr \<Rightarrow> nat \<Rightarrow> string \<Rightarrow> fault + world" where
  "write_bytes w p off bs =
     (case p of
        Lit s \<Rightarrow> Inl WriteToLiteral
      | Blk i \<Rightarrow>
          if length (mem w) \<le> i then Inl InvalidPointer
          else if length (mem w ! i) < off + length bs then Inl BufferOverflow
          else Inr (w\<lparr>mem := (mem w)[i := take off (mem w ! i) @ map Some bs
                                          @ drop (off + length bs) (mem w ! i)]\<rparr>))"

definition alloc :: "nat \<Rightarrow> world \<Rightarrow> cptr \<times> world" where
  "alloc n w = (Blk (length (mem w)), w\<lparr>mem := mem w @ [replicate n None]\<rparr>)"

definition leave :: "world \<Rightarrow> world" where
  "leave w = w\<lparr>mem := butlast (mem w)\<rparr>"

definition malloc :: "nat \<Rightarrow> world \<Rightarrow> cptr outcome" where
  "malloc n w = (case alloc n w of (p, w') \<Rightarrow> Return p w')"

definition strcpy :: "cptr \<Rightarrow> cptr \<Rightarrow> world \<Rightarrow> unit outcome" where
  "strcpy dst src w =
     (if dst = src then Crash OverlappingCopy w
      else case string_at w src of
        Inl e \<Rightarrow> Crash e w
      | Inr s \<Rightarrow> (case write_bytes w dst 0 (s @ [NUL]) of
                   Inl e \<Rightarrow> Crash e w
                 | Inr w' \<Rightarrow> Return () w'))"

definition strcat :: "cptr \<Rightarrow> cptr \<Rightarrow> world \<Rightarrow> unit outcome" where
  "strcat dst src w =
     (if dst = src then Crash OverlappingCopy w
      else case string_at w dst of
        Inl e \<Rightarrow> Crash e w
      | Inr d \<Rightarrow> (case string_at w src of
                   Inl e \<Rightarrow> Crash e w
                 | Inr s \<Rightarrow> (case write_bytes w dst (length d) (s @ [NUL]) of
                              Inl e \<Rightarrow> Crash e w
                            | Inr w' \<Rightarrow> Return () w')))"

subsection \<open>Input and output\<close>

text \<open>
  \<^verbatim>\<open>gets\<close> reads up to the next newline or the end of the input, stores the bytes and a
  terminating null with no regard for the size of the array, and discards the newline. At
  the end of the input with nothing read it stores nothing and returns the null pointer
  (\<open>None\<close>).
\<close>

definition gets :: "cptr \<Rightarrow> world \<Rightarrow> cptr option outcome" where
  "gets p w =
     (let line = takeWhile (\<lambda>c. c \<noteq> NL) (stdin w);
          rest = drop (length line) (stdin w)
      in if line = [] \<and> rest = [] then Return None w
         else case write_bytes w p 0 (line @ [NUL]) of
                Inl e \<Rightarrow> Crash e w
              | Inr w' \<Rightarrow> Return (Some p) (w'\<lparr>stdin := drop 1 rest\<rparr>))"

definition digit_char :: "nat \<Rightarrow> char" where
  "digit_char d = char_of (48 + d)"

fun show_nat :: "nat \<Rightarrow> string" where
  "show_nat n = (if n < 10 then [digit_char n] else show_nat (n div 10) @ [digit_char (n mod 10)])"

declare show_nat.simps [simp del]

definition show_int :: "int \<Rightarrow> string" where
  "show_int k = (if k < 0 then CHR ''-'' # show_nat (nat (- k)) else show_nat (nat k))"

datatype arg = AStr cptr | AInt cint

text \<open>The conversions the fixtures use: \<^verbatim>\<open>%s\<close>, \<^verbatim>\<open>%d\<close> and \<^verbatim>\<open>%%\<close>.\<close>

fun format :: "world \<Rightarrow> string \<Rightarrow> arg list \<Rightarrow> fault + string" where
  "format w [] args = Inr []"
| "format w [c] args = (if c = CHR ''%'' then Inl BadFormat else Inr [c])"
| "format w (c # d # fs) args =
     (if c \<noteq> CHR ''%'' then
        (case format w (d # fs) args of Inl e \<Rightarrow> Inl e | Inr r \<Rightarrow> Inr (c # r))
      else if d = CHR ''%'' then
        (case format w fs args of Inl e \<Rightarrow> Inl e | Inr r \<Rightarrow> Inr (CHR ''%'' # r))
      else if d = CHR ''s'' then
        (case args of
           AStr p # rest \<Rightarrow>
             (case string_at w p of
                Inl e \<Rightarrow> Inl e
              | Inr s \<Rightarrow> (case format w fs rest of Inl e \<Rightarrow> Inl e | Inr r \<Rightarrow> Inr (s @ r)))
         | _ \<Rightarrow> Inl BadFormat)
      else if d = CHR ''d'' then
        (case args of
           AInt k # rest \<Rightarrow>
             (case format w fs rest of Inl e \<Rightarrow> Inl e | Inr r \<Rightarrow> Inr (show_int (sint k) @ r))
         | _ \<Rightarrow> Inl BadFormat)
      else Inl BadFormat)"

definition printf :: "string \<Rightarrow> arg list \<Rightarrow> world \<Rightarrow> unit outcome" where
  "printf fmt args w =
     (case format w fmt args of
        Inl e \<Rightarrow> Crash e w
      | Inr s \<Rightarrow> Return () (w\<lparr>stdout := stdout w @ s\<rparr>))"

definition sprintf :: "cptr \<Rightarrow> string \<Rightarrow> arg list \<Rightarrow> world \<Rightarrow> unit outcome" where
  "sprintf dst fmt args w =
     (if AStr dst \<in> set args then Crash OverlappingCopy w
      else case format w fmt args of
        Inl e \<Rightarrow> Crash e w
      | Inr s \<Rightarrow> (case write_bytes w dst 0 (s @ [NUL]) of
                   Inl e \<Rightarrow> Crash e w
                 | Inr w' \<Rightarrow> Return () w'))"

text \<open>\<^verbatim>\<open>cout << s\<close> for a string, and \<^verbatim>\<open>cout << endl\<close>.\<close>

definition cout :: "string \<Rightarrow> world \<Rightarrow> world" where
  "cout s w = w\<lparr>stdout := stdout w @ s\<rparr>"

definition endl :: "world \<Rightarrow> world" where
  "endl w = w\<lparr>stdout := stdout w @ [NL]\<rparr>"

text \<open>
  \<^verbatim>\<open>scanf("%d", ...)\<close>: white space is skipped, then an optional sign and a non-empty run
  of digits are read. \<open>None\<close> is a matching failure, which leaves the variable as it was.
\<close>

definition is_space :: "char \<Rightarrow> bool" where
  "is_space c = (c \<in> set [CHR '' '', CHR 0x09, NL, CHR 0x0B, CHR 0x0C, CHR 0x0D])"

definition is_digit :: "char \<Rightarrow> bool" where
  "is_digit c = ((48::nat) \<le> of_char c \<and> of_char c \<le> (57::nat))"

fun dec_value :: "nat \<Rightarrow> string \<Rightarrow> nat" where
  "dec_value acc [] = acc"
| "dec_value acc (c # cs) = dec_value (10 * acc + (of_char c - (48::nat))) cs"

definition scan_int :: "string \<Rightarrow> int option \<times> string" where
  "scan_int s =
     (let s1 = dropWhile is_space s;
          neg = (take 1 s1 = ''-'');
          s2 = (if take 1 s1 = ''-'' \<or> take 1 s1 = ''+'' then drop 1 s1 else s1);
          ds = takeWhile is_digit s2
      in if ds = [] then (None, s2)
         else (Some (if neg then - int (dec_value 0 ds) else int (dec_value 0 ds)),
               drop (length ds) s2))"

definition scanf_d :: "world \<Rightarrow> cint option outcome" where
  "scanf_d w =
     (case scan_int (stdin w) of
        (None, rest) \<Rightarrow> Return None (w\<lparr>stdin := rest\<rparr>)
      | (Some k, rest) \<Rightarrow>
          if int_fits k then Return (Some (word_of_int k)) (w\<lparr>stdin := rest\<rparr>)
          else Crash SignedOverflow w)"

text \<open>Reading a scalar variable: an indeterminate value is a fault.\<close>

definition read_var :: "'a option \<Rightarrow> world \<Rightarrow> 'a outcome" where
  "read_var v w = (case v of None \<Rightarrow> Crash UninitializedRead w | Some a \<Rightarrow> Return a w)"

definition lift :: "fault + 'a \<Rightarrow> world \<Rightarrow> 'a outcome" where
  "lift r w = (case r of Inl e \<Rightarrow> Crash e w | Inr a \<Rightarrow> Return a w)"

section \<open>The C fixture, \<^verbatim>\<open>unsafe_c_code.c\<close>\<close>

text \<open>
  \<^verbatim>\<open>void getUserInput(char *buffer) { printf("Enter your name: "); gets(buffer); }\<close>
\<close>

definition getUserInput :: "cptr \<Rightarrow> world \<Rightarrow> unit outcome" where
  "getUserInput buffer w =
     and_then (printf ''Enter your name: '' [] w) (\<lambda>_ w.
     and_then (gets buffer w) (\<lambda>_ w.
     Return () w))"

text \<open>
  \<^verbatim>\<open>char *greet = malloc(50); strcpy(greet, "Hello "); strcat(greet, name); return greet;\<close>
\<close>

definition buildGreeting :: "cptr \<Rightarrow> world \<Rightarrow> cptr outcome" where
  "buildGreeting name w =
     and_then (malloc 50 w) (\<lambda>greet w.
     and_then (strcpy greet (Lit ''Hello '') w) (\<lambda>_ w.
     and_then (strcat greet name w) (\<lambda>_ w.
     Return greet w)))"

text \<open>
  \<^verbatim>\<open>char query[200]; sprintf(query, "SELECT * FROM users WHERE name = '%s';", userInput);\<close>
  \<^verbatim>\<open>printf("Executing query: %s\n", query);\<close>
\<close>

definition queryDatabase_format :: string where
  "queryDatabase_format = ''SELECT * FROM users WHERE name = '%s';''"

definition queryDatabase :: "cptr \<Rightarrow> world \<Rightarrow> unit outcome" where
  "queryDatabase userInput w0 =
     (case alloc 200 w0 of (query, w) \<Rightarrow>
        and_then (sprintf query queryDatabase_format [AStr userInput] w) (\<lambda>_ w.
        and_then (printf (''Executing query: %s'' @ [NL]) [AStr query] w) (\<lambda>_ w.
        Return () (leave w))))"

text \<open>\<^verbatim>\<open>int divide(int a, int b) { return a / b; }\<close>\<close>

definition divide_c :: "cint \<Rightarrow> cint \<Rightarrow> fault + cint" where
  "divide_c a b = c_div a b"

text \<open>
  \<^verbatim>\<open>scanf("%d %d", &x, &y)\<close> assigns \<open>x\<close>, then \<open>y\<close>, and stops at the first conversion that
  fails; what it did not assign keeps its value.
\<close>

definition scanf_d_d ::
  "cint option \<Rightarrow> cint option \<Rightarrow> world \<Rightarrow> (cint option \<times> cint option) outcome" where
  "scanf_d_d x y w =
     and_then (scanf_d w) (\<lambda>a w.
       case a of
         None \<Rightarrow> Return (x, y) w
       | Some _ \<Rightarrow> and_then (scanf_d w) (\<lambda>b w.
                    Return (a, case b of None \<Rightarrow> y | Some _ \<Rightarrow> b) w))"

text \<open>
  \<open>main\<close> of the C fixture. \<open>name\<close> is an array of 10 bytes; \<open>x\<close>, \<open>y\<close> and \<open>result\<close> are
  declared with no initializer, and \<open>result\<close> is read first of all.
\<close>

definition c_main_name :: "world \<Rightarrow> cptr \<times> world" where
  "c_main_name w = alloc 10 w"

definition c_main :: "world \<Rightarrow> cint outcome" where
  "c_main w0 =
     (case c_main_name w0 of (name, w) \<Rightarrow>
        let x = None; y = None; result = None in
        and_then (read_var result w) (\<lambda>r w.
        and_then (printf (''Uninitialized result = %d'' @ [NL]) [AInt r] w) (\<lambda>_ w.
        and_then (getUserInput name w) (\<lambda>_ w.
        and_then (buildGreeting name w) (\<lambda>greeting w.
        and_then (printf (''%s'' @ [NL]) [AStr greeting] w) (\<lambda>_ w.
        and_then (queryDatabase name w) (\<lambda>_ w.
        and_then (printf ''Enter two numbers: '' [] w) (\<lambda>_ w.
        and_then (scanf_d_d x y w) (\<lambda>(x, y) w.
        and_then (read_var x w) (\<lambda>a w.
        and_then (read_var y w) (\<lambda>b w.
        and_then (lift (divide_c a b) w) (\<lambda>q w.
        and_then (printf (''Division result: %d'' @ [NL]) [AInt q] w) (\<lambda>_ w.
        Return 0 w)))))))))))))"

section \<open>The C++ fixture, \<^verbatim>\<open>test_cpp_issues.cpp\<close>\<close>

text \<open>\<^verbatim>\<open>string api_secret = "sk-abc123456789";\<close> No statement of the file writes it.\<close>

definition api_secret :: string where
  "api_secret = ''sk-abc123456789''"

record UnsafeClass =
  buffer :: cptr

text \<open>\<^verbatim>\<open>UnsafeClass() { buffer = (char*)malloc(100); }\<close>\<close>

definition UnsafeClass_new :: "world \<Rightarrow> UnsafeClass outcome" where
  "UnsafeClass_new w = and_then (malloc 100 w) (\<lambda>p w. Return \<lparr>buffer = p\<rparr> w)"

text \<open>
  \<^verbatim>\<open>char input[50]; cout << "Enter data: "; gets(input); strcpy(buffer, input);\<close>
\<close>

definition unsafeInput :: "UnsafeClass \<Rightarrow> world \<Rightarrow> unit outcome" where
  "unsafeInput this w0 =
     (case alloc 50 w0 of (input, w) \<Rightarrow>
        and_then (Return () (cout ''Enter data: '' w)) (\<lambda>_ w.
        and_then (gets input w) (\<lambda>_ w.
        and_then (strcpy (buffer this) input w) (\<lambda>_ w.
        Return () (leave w)))))"

text \<open>
  \<^verbatim>\<open>char query[200]; sprintf(query, "SELECT * FROM users WHERE name = '%s'", data);\<close>
  \<^verbatim>\<open>cout << query << endl;\<close>
\<close>

definition processData_format :: string where
  "processData_format = ''SELECT * FROM users WHERE name = '%s'' @ [CHR 0x27]"

definition processData :: "UnsafeClass \<Rightarrow> cptr \<Rightarrow> world \<Rightarrow> unit outcome" where
  "processData this data w0 =
     (case alloc 200 w0 of (query, w) \<Rightarrow>
        and_then (sprintf query processData_format [AStr data] w) (\<lambda>_ w.
        and_then (lift (string_at w query) w) (\<lambda>s w.
        Return () (leave (endl (cout s w))))))"

text \<open>\<^verbatim>\<open>int divide(int a, int b) { return a / b; }\<close>, the member function.\<close>

definition UnsafeClass_divide :: "UnsafeClass \<Rightarrow> cint \<Rightarrow> cint \<Rightarrow> fault + cint" where
  "UnsafeClass_divide this a b = c_div a b"

text \<open>
  \<open>main\<close> of the C++ fixture, in two parts: lines 45 to 49 (the object, the input, the
  query), and lines 51 to 56 (the secret, the division, the result). \<open>main\<close> never calls
  \<open>debugFunction\<close>, which is looked at as text only, further down.
\<close>

definition cpp_main_45_49 :: "world \<Rightarrow> UnsafeClass outcome" where
  "cpp_main_45_49 w =
     and_then (UnsafeClass_new w) (\<lambda>obj w.
     and_then (unsafeInput obj w) (\<lambda>_ w.
     and_then (processData obj (Lit ''admin'; DROP TABLE users; --'') w) (\<lambda>_ w.
     Return obj w)))"

definition cpp_main_51 :: "world \<Rightarrow> world" where
  "cpp_main_51 w = endl (cout api_secret (cout ''API Secret: '' w))"

definition cpp_main_53_56 :: "UnsafeClass \<Rightarrow> world \<Rightarrow> cint outcome" where
  "cpp_main_53_56 obj w =
     and_then (lift (UnsafeClass_divide obj 10 0) w) (\<lambda>result w.
     Return 0 (endl (cout (show_int (sint result)) (cout ''Result: '' w))))"

definition cpp_main :: "world \<Rightarrow> cint outcome" where
  "cpp_main w =
     and_then (cpp_main_45_49 w) (\<lambda>obj w.
     cpp_main_53_56 obj (cpp_main_51 w))"

section \<open>The fixtures as text\<close>

text \<open>
  The two files, byte for byte, as lists of lines. A backslash is written \<open>CHR 0x5C\<close>.
  \<^verbatim>\<open>unsafe_c_code.c\<close> does not end with a newline; \<^verbatim>\<open>test_cpp_issues.cpp\<close> does, hence the
  empty last line.
\<close>

definition unsafe_c_code_lines :: "string list" where
  \<open>unsafe_c_code_lines =
    [''#include <stdio.h>'',
     ''#include <stdlib.h>'',
     ''#include <string.h>'',
     '''',
     ''char global_password[20] = "admin123"; // Hardcoded secret (bad practice)'',
     '''',
     ''// Function to read user input (unsafe)'',
     ''void getUserInput(char *buffer) {'',
     ''    printf("Enter your name: ");'',
     ''    gets(buffer); // Insecure: buffer overflow risk'',
     ''}'',
     '''',
     ''// Function with memory leak and unsafe string handling'',
     ''char* buildGreeting(char *name) {'',
     ''    char *greet = malloc(50); // Allocated but never freed'',
     ''    strcpy(greet, "Hello ");  // Unsafe strcpy'',
     ''    strcat(greet, name);      // Unsafe strcat'',
     ''    return greet;'',
     ''}'',
     '''',
     ''// Function simulating SQL query construction (SQL injection risk)'',
     ''void queryDatabase(char *userInput) {'',
     ''    char query[200];'',
     ''    sprintf(query, "SELECT * FROM users WHERE name = '%s';", userInput); // Injection risk'',
     ''    printf("Executing query: %s'' @ [CHR 0x5C] @ ''n", query);'',
     ''}'',
     '''',
     ''// Function with division by zero possibility'',
     ''int divide(int a, int b) {'',
     ''    return a / b; // No check for b == 0'',
     ''}'',
     '''',
     ''int main() {'',
     ''    char name[10]; // Too small buffer'',
     ''    int x, y, result;'',
     '''',
     ''    // Using uninitialized variables'',
     ''    printf("Uninitialized result = %d'' @ [CHR 0x5C] @ ''n", result);'',
     '''',
     ''    getUserInput(name);'',
     ''    char *greeting = buildGreeting(name);'',
     ''    printf("%s'' @ [CHR 0x5C] @ ''n", greeting);'',
     '''',
     ''    queryDatabase(name);'',
     '''',
     ''    printf("Enter two numbers: ");'',
     ''    scanf("%d %d", &x, &y);'',
     ''    printf("Division result: %d'' @ [CHR 0x5C] @ ''n", divide(x, y));'',
     '''',
     ''    // Forgot to free(greeting); --> memory leak'',
     '''',
     ''    return 0;'',
     ''}'']\<close>

definition test_cpp_issues_lines :: "string list" where
  \<open>test_cpp_issues_lines =
    [''// C++ Test File with Multiple Issues'',
     ''#include <iostream>'',
     ''#include <cstring>'',
     ''#include <cstdlib>'',
     '''',
     ''using namespace std;'',
     '''',
     ''string api_secret = "sk-abc123456789";  // Hardcoded secret - SECURITY ISSUE'',
     '''',
     ''class UnsafeClass {'',
     ''private:'',
     ''    char* buffer;'',
     ''    '',
     ''public:'',
     ''    UnsafeClass() {'',
     ''        buffer = (char*)malloc(100);  // Memory allocation without proper cleanup'',
     ''    }'',
     ''    '',
     ''    void unsafeInput() {'',
     ''        char input[50];'',
     ''        cout << "Enter data: ";'',
     ''        gets(input);  // SECURITY: Buffer overflow vulnerability'',
     ''        strcpy(buffer, input);  // SECURITY: Unsafe string copy'',
     ''    }'',
     ''    '',
     ''    void processData(const char* data) {'',
     ''        char query[200];'',
     ''        sprintf(query, "SELECT * FROM users WHERE name = '%s'", data);  // SECURITY: SQL injection + buffer overflow'',
     ''        cout << query << endl;  // Debug output'',
     ''    }'',
     ''    '',
     ''    int divide(int a, int b) {'',
     ''        return a / b;  // QUALITY: Division by zero risk'',
     ''    }'',
     ''    '',
     ''    // hello test - this is a test comment  // QUALITY: Test comment'',
     ''    void debugFunction() {'',
     ''        cout << "Debug mode active" << endl;  // Debug statement'',
     ''        // TODO: fix this later  // QUALITY: TODO comment'',
     ''        system("ls -la");  // SECURITY: Command execution'',
     ''    }'',
     ''};'',
     '''',
     ''int main() {'',
     ''    UnsafeClass obj;'',
     ''    '',
     ''    // test comment here  // Test comment'',
     ''    obj.unsafeInput();'',
     ''    obj.processData("admin'; DROP TABLE users; --");'',
     ''    '',
     ''    cout << "API Secret: " << api_secret << endl;  // SECURITY: Exposing secret'',
     ''    '',
     ''    int result = obj.divide(10, 0);  // Division by zero'',
     ''    cout << "Result: " << result << endl;'',
     ''    '',
     ''    return 0;'',
     ''    // Missing: delete[] buffer; - QUALITY: Memory leak'',
     ''}'',
     '''']\<close>

definition join_lines :: "string list \<Rightarrow> string" where
  "join_lines ls = (case ls of [] \<Rightarrow> [] | l # rest \<Rightarrow> l @ concat (map (\<lambda>x. NL # x) rest))"

definition unsafe_c_code :: string where
  "unsafe_c_code = join_lines unsafe_c_code_lines"

definition test_cpp_issues :: string where
  "test_cpp_issues = join_lines test_cpp_issues_lines"

section \<open>The scanner of the specification\<close>

text \<open>
  Modelled from the spec: the scanner (sections 4 and 9), which the repository does not
  contain. The specification describes a scanner whose rules are meant to fire on the
  defects planted in the two files; the repository holds the two files only. Every
  definition of this section is modelled from the specification's words, as much of them
  as the claims need, and run on the text of the files.
\<close>

subsection \<open>Lex state\<close>

text \<open>
  Modelled from the spec: the lex state tracker (section 9, "Lex state"), which the
  repository does not contain: "a small state machine with states {code, line_comment,
  block_comment, dq_string, sq_string} and transitions driven by the current and next
  byte. Backslash escapes inside strings consume the next byte."

  \<open>lex_step st c next\<close> gives the state the byte \<open>c\<close> lies in, the state after it, and
  whether the next byte is consumed with it (the second byte of \<^verbatim>\<open>//\<close>, \<^verbatim>\<open>/*\<close> and \<^verbatim>\<open>*/\<close>, and
  the byte after a backslash in a string). The delimiters of a comment or a string lie in
  it; the newline that ends a single-line comment lies in code.
\<close>

datatype lex_state = Code | LineComment | BlockComment | DqString | SqString

abbreviation DQUOTE :: char where "DQUOTE \<equiv> CHR 0x22"
abbreviation QUOTE :: char where "QUOTE \<equiv> CHR 0x27"
abbreviation BACKSLASH :: char where "BACKSLASH \<equiv> CHR 0x5C"

fun lex_step :: "lex_state \<Rightarrow> char \<Rightarrow> char option \<Rightarrow> lex_state \<times> lex_state \<times> bool" where
  "lex_step Code c next =
     (if c = CHR ''/'' \<and> next = Some CHR ''/'' then (LineComment, LineComment, True)
      else if c = CHR ''/'' \<and> next = Some CHR ''*'' then (BlockComment, BlockComment, True)
      else if c = DQUOTE then (DqString, DqString, False)
      else if c = QUOTE then (SqString, SqString, False)
      else (Code, Code, False))"
| "lex_step LineComment c next =
     (if c = NL then (Code, Code, False) else (LineComment, LineComment, False))"
| "lex_step BlockComment c next =
     (if c = CHR ''*'' \<and> next = Some CHR ''/'' then (BlockComment, Code, True)
      else (BlockComment, BlockComment, False))"
| "lex_step DqString c next =
     (if c = BACKSLASH then (DqString, DqString, True)
      else if c = DQUOTE then (DqString, Code, False)
      else (DqString, DqString, False))"
| "lex_step SqString c next =
     (if c = BACKSLASH then (SqString, SqString, True)
      else if c = QUOTE then (SqString, Code, False)
      else (SqString, SqString, False))"

fun lex_from :: "lex_state \<Rightarrow> string \<Rightarrow> lex_state list" where
  "lex_from st [] = []"
| "lex_from st [c] = [fst (lex_step st c None)]"
| "lex_from st (c # d # cs) =
     (if snd (snd (lex_step st c (Some d)))
      then fst (lex_step st c (Some d)) # fst (lex_step st c (Some d))
             # lex_from (fst (snd (lex_step st c (Some d)))) cs
      else fst (lex_step st c (Some d)) # lex_from (fst (snd (lex_step st c (Some d)))) (d # cs))"

fun lex_end :: "lex_state \<Rightarrow> string \<Rightarrow> lex_state" where
  "lex_end st [] = st"
| "lex_end st [c] = fst (snd (lex_step st c None))"
| "lex_end st (c # d # cs) =
     (if snd (snd (lex_step st c (Some d)))
      then lex_end (fst (snd (lex_step st c (Some d)))) cs
      else lex_end (fst (snd (lex_step st c (Some d)))) (d # cs))"

text \<open>
  The buffer is walked line by line, each line with the newline that ends it, and the
  state is carried from one line to the next. The result gives, for every line, the state
  of each of its bytes.
\<close>

fun lex_lines :: "lex_state \<Rightarrow> string list \<Rightarrow> lex_state list list" where
  "lex_lines st [] = []"
| "lex_lines st (l # ls) =
     take (length l) (lex_from st (l @ [NL])) # lex_lines (lex_end st (l @ [NL])) ls"

text \<open>
  Modelled from the spec: the Line Index (section 4.1), which the repository does not
  contain: the offset in the buffer of the first byte of a line (lines counted from 0).
\<close>

definition line_start :: "string list \<Rightarrow> nat \<Rightarrow> nat" where
  "line_start ls i = length (concat (map (\<lambda>l. l @ [NL]) (take i ls)))"

definition in_code :: "lex_state \<Rightarrow> bool" where
  "in_code st = (st = Code)"

definition in_line_comment :: "lex_state \<Rightarrow> bool" where
  "in_line_comment st = (st = LineComment)"

definition in_comment :: "lex_state \<Rightarrow> bool" where
  "in_comment st = (st = LineComment \<or> st = BlockComment)"

definition outside_comment :: "lex_state \<Rightarrow> bool" where
  "outside_comment st = (st = Code \<or> st = DqString \<or> st = SqString)"

subsection \<open>Characters and patterns\<close>

text \<open>
  The classes of ASCII characters, read off the bits of the byte (least significant
  first): a letter is \<open>010x xxxx\<close> or \<open>011x xxxx\<close> with the low five bits between 1 and 26.
\<close>

definition letter_index :: "bool \<Rightarrow> bool \<Rightarrow> bool \<Rightarrow> bool \<Rightarrow> bool \<Rightarrow> bool" where
  "letter_index b0 b1 b2 b3 b4 =
     ((b0 \<or> b1 \<or> b2 \<or> b3 \<or> b4) \<and> \<not> (b4 \<and> b3 \<and> (b2 \<or> (b1 \<and> b0))))"

fun is_upper :: "char \<Rightarrow> bool" where
  "is_upper (Char b0 b1 b2 b3 b4 b5 b6 b7) =
     (b6 \<and> \<not> b5 \<and> \<not> b7 \<and> letter_index b0 b1 b2 b3 b4)"

fun is_lower :: "char \<Rightarrow> bool" where
  "is_lower (Char b0 b1 b2 b3 b4 b5 b6 b7) =
     (b6 \<and> b5 \<and> \<not> b7 \<and> letter_index b0 b1 b2 b3 b4)"

fun is_decimal :: "char \<Rightarrow> bool" where
  "is_decimal (Char b0 b1 b2 b3 b4 b5 b6 b7) =
     (b4 \<and> b5 \<and> \<not> b6 \<and> \<not> b7 \<and> \<not> (b3 \<and> (b1 \<or> b2)))"

definition is_word_char :: "char \<Rightarrow> bool" where
  "is_word_char c = (if c = CHR ''_'' then True else if is_lower c then True
                     else if is_upper c then True else is_decimal c)"

fun to_upper :: "char \<Rightarrow> char" where
  "to_upper (Char b0 b1 b2 b3 b4 b5 b6 b7) =
     (if is_lower (Char b0 b1 b2 b3 b4 b5 b6 b7) then Char b0 b1 b2 b3 b4 False b6 b7
      else Char b0 b1 b2 b3 b4 b5 b6 b7)"

fun contains :: "string \<Rightarrow> string \<Rightarrow> bool" where
  "contains pat [] = (pat = [])"
| "contains pat (c # cs) = (if prefix pat (c # cs) then True else contains pat cs)"

fun nocase_prefix :: "string \<Rightarrow> string \<Rightarrow> bool" where
  "nocase_prefix [] s = True"
| "nocase_prefix (w # ws) [] = False"
| "nocase_prefix (w # ws) (c # cs) =
     (if c = w then nocase_prefix ws cs
      else if to_upper c = w then nocase_prefix ws cs
      else False)"

fun first_len :: "(string \<Rightarrow> bool) \<Rightarrow> string list \<Rightarrow> nat" where
  "first_len p [] = 0"
| "first_len p (w # ws) = (if p w then length w else first_len p ws)"

text \<open>
  A matcher is given the bytes of the line before a position (nearest first) and the bytes
  from the position to the end of the line, and returns the length of the match that
  starts at the position, or 0.
\<close>

type_synonym matcher = "string \<Rightarrow> string \<Rightarrow> nat"

definition word_before :: "string \<Rightarrow> bool" where
  "word_before prev = (case prev of [] \<Rightarrow> False | c # _ \<Rightarrow> is_word_char c)"

definition word_after :: "string \<Rightarrow> bool" where
  "word_after s = (case s of [] \<Rightarrow> False | c # _ \<Rightarrow> is_word_char c)"

text \<open>One of the alternatives, as it is written.\<close>

definition plain_match :: "string list \<Rightarrow> matcher" where
  "plain_match ws prev s = first_len (\<lambda>w. prefix w s) ws"

text \<open>One of the alternatives (given in upper case), whatever the case of the text.\<close>

definition nocase_match :: "string list \<Rightarrow> matcher" where
  "nocase_match ws prev s = first_len (\<lambda>w. nocase_prefix w s) ws"

text \<open>One of the alternatives between two word boundaries (\<^verbatim>\<open>\bw\b\<close>).\<close>

definition word_match :: "string list \<Rightarrow> matcher" where
  "word_match ws prev s =
     first_len (\<lambda>w. if prefix w s
                     then (if word_before prev then False else \<not> word_after (drop (length w) s))
                     else False) ws"

text \<open>
  Modelled from the spec: the Call-site match kind (section 4.3), which the repository
  does not contain: "a bare identifier from a fixed deny-list appears immediately followed
  by an opening parenthesis, not preceded by a word character, dot, or arrow."
\<close>

definition call_match :: "string list \<Rightarrow> matcher" where
  "call_match names prev s =
     first_len (\<lambda>w. if prefix (w @ ''('') s
                     then \<not> (word_before prev \<or> prefix ''.'' prev \<or> prefix ''>-'' prev)
                     else False) names"

subsection \<open>Rules and findings\<close>

text \<open>
  Modelled from the spec: the Line Index (section 4.1), the Rule and the Scanner
  (sections 4.3 and 4.4), which the repository does not contain. A finding is a line, a
  column and the length of the span, lines and columns 1-based and counted in bytes. A
  rule is asked at every byte of every line, with the column, the bytes of the line before
  it (nearest first), the bytes from it to the end of the line and the lex states of
  these, and answers with the spans it reports there.
\<close>

type_synonym finding = "nat \<times> nat \<times> nat"
type_synonym rule = "nat \<Rightarrow> string \<Rightarrow> string \<Rightarrow> lex_state list \<Rightarrow> (nat \<times> nat) list"

fun walk_line :: "rule \<Rightarrow> nat \<Rightarrow> string \<Rightarrow> string \<Rightarrow> lex_state list \<Rightarrow> (nat \<times> nat) list" where
  "walk_line r col prev (c # cs) (s # ss) =
     r col prev (c # cs) (s # ss) @ walk_line r (Suc col) (c # prev) cs ss"
| "walk_line r col prev cs ss = []"

definition scan :: "rule \<Rightarrow> string list \<Rightarrow> finding list" where
  "scan r ls =
     concat (map (\<lambda>(n, l, ss). map (\<lambda>(col, k). (n, col, k)) (walk_line r 1 [] l ss))
                 (enumerate 1 (zip ls (lex_lines Code ls))))"

text \<open>
  Literal awareness: a match counts when all its bytes lie in a state the rule accepts
  (code for most rules, a comment for the Comment-scan rules).
\<close>

definition match_in :: "matcher \<Rightarrow> (lex_state \<Rightarrow> bool) \<Rightarrow> rule" where
  "match_in m ok col prev s ss =
     (if list_all ok (take 1 ss)
      then (if 0 < m prev s
            then (if list_all ok (take (m prev s) ss) then [(col, m prev s)] else [])
            else [])
      else [])"

definition span_text :: "string list \<Rightarrow> finding \<Rightarrow> string" where
  "span_text ls f = (case f of (n, col, k) \<Rightarrow> take k (drop (col - 1) (ls ! (n - 1))))"

definition span_states :: "string list \<Rightarrow> finding \<Rightarrow> lex_state list" where
  "span_states ls f =
     (case f of (n, col, k) \<Rightarrow> take k (drop (col - 1) (lex_lines Code ls ! (n - 1))))"

subsection \<open>Comment-scan\<close>

text \<open>
  Modelled from the spec: the Comment-scan rules (section 4.3), which the repository does
  not contain: "fires on the contents of single-line and block comments. Drives
  TODO_COMMENT (TODO|FIXME|XXX|HACK, case-insensitive) and TEST_LEFTOVER_COMMENT
  (\<^verbatim>\<open>\btest\b|\bhello\b\<close> in a comment)."
\<close>

definition TODO_COMMENT :: rule where
  "TODO_COMMENT = match_in (nocase_match [''TODO'', ''FIXME'', ''XXX'', ''HACK'']) in_comment"

definition TEST_LEFTOVER_COMMENT :: rule where
  "TEST_LEFTOVER_COMMENT = match_in (word_match [''test'', ''hello'']) in_comment"

subsection \<open>Structural rules on a statement\<close>

text \<open>
  The statement that starts at a position runs to the first semicolon in code (or to the
  end of the line). Its string literals are the runs of bytes in the state \<open>dq_string\<close>,
  quotes included.
\<close>

fun statement_len :: "string \<Rightarrow> lex_state list \<Rightarrow> nat" where
  "statement_len (c # cs) (s # ss) =
     (if s = Code then (if c = CHR '';'' then 0 else Suc (statement_len cs ss))
      else Suc (statement_len cs ss))"
| "statement_len cs ss = 0"

fun literal_at :: "string \<Rightarrow> lex_state list \<Rightarrow> string" where
  "literal_at (c # cs) (s # ss) = (if s = DqString then c # literal_at cs ss else [])"
| "literal_at cs ss = []"

fun literals :: "bool \<Rightarrow> string \<Rightarrow> lex_state list \<Rightarrow> string list" where
  "literals inside (c # cs) (s # ss) =
     (if s = DqString
      then (if inside then literals True cs ss
            else literal_at (c # cs) (s # ss) # literals True cs ss)
      else literals False cs ss)"
| "literals inside cs ss = []"

definition literal_body :: "string \<Rightarrow> string" where
  "literal_body lit = butlast (tl lit)"

definition statement_literals :: "string \<Rightarrow> lex_state list \<Rightarrow> string list" where
  "statement_literals s ss =
     map literal_body (literals False (take (statement_len s ss) s) (take (statement_len s ss) ss))"

text \<open>
  Modelled from the spec: the Structural-regex rules FORMATTED_QUERY and DEBUG_PRINT
  (section 4.3), which the repository does not contain: "a regular expression scoped to a
  single logical statement terminator. Used for FORMATTED_QUERY (format-print whose
  literal argument contains SELECT|INSERT|UPDATE|DELETE and a %s) \<dots> and DEBUG_PRINT
  (output primitive whose literal argument contains debug|DEBUG)." The finding is
  anchored at the name of the primitive.
\<close>

definition statement_rule :: "string list \<Rightarrow> (string \<Rightarrow> bool) \<Rightarrow> rule" where
  "statement_rule names literal_ok col prev s ss =
     (if match_in (word_match names) in_code col prev s ss = [] then []
      else if list_ex literal_ok (statement_literals s ss)
           then match_in (word_match names) in_code col prev s ss
           else [])"

definition query_literal :: "string \<Rightarrow> bool" where
  "query_literal body =
     ((contains ''SELECT'' body \<or> contains ''INSERT'' body \<or> contains ''UPDATE'' body
        \<or> contains ''DELETE'' body) \<and> contains ''%s'' body)"

definition debug_literal :: "string \<Rightarrow> bool" where
  "debug_literal body = (contains ''debug'' body \<or> contains ''DEBUG'' body)"

definition debug_literal_nocase :: "string \<Rightarrow> bool" where
  "debug_literal_nocase body = contains ''DEBUG'' (map to_upper body)"

definition format_prints :: "string list" where
  "format_prints = [''printf'', ''fprintf'', ''sprintf'', ''snprintf'']"

definition output_primitives :: "string list" where
  "output_primitives = [''printf'', ''fprintf'', ''puts'', ''cout'', ''cerr'']"

definition FORMATTED_QUERY :: rule where
  "FORMATTED_QUERY = statement_rule format_prints query_literal"

definition DEBUG_PRINT :: rule where
  "DEBUG_PRINT = statement_rule output_primitives debug_literal"

definition DEBUG_PRINT_nocase :: rule where
  "DEBUG_PRINT_nocase = statement_rule output_primitives debug_literal_nocase"

subsection \<open>Token-near-literal\<close>

text \<open>
  Modelled from the spec: the Token-near-literal rule HARDCODED_SECRET (section 4.3),
  which the repository does not contain: "fires when an identifier matching a name
  pattern (e.g. secret|password|api[_-]?key|token) appears within N bytes (N=40) of an
  assignment operator followed by a quoted string literal of length \<ge> 6. Emits a finding
  at the literal's start."

  The rule answers where the name pattern matches in code. The identifier runs on over the
  word characters that follow; the assignment operator is looked for in the \<open>n\<close> bytes
  after it, and the literal after the operator and the blanks that follow it.
\<close>

fun find_assign :: "nat \<Rightarrow> string \<Rightarrow> lex_state list \<Rightarrow> nat option" where
  "find_assign 0 cs ss = None"
| "find_assign (Suc n) (c # cs) (s # ss) =
     (if s = Code
      then (if c = CHR ''=''
            then (if prefix ''='' cs then None else Some 0)
            else if c \<in> set ''!<>;'' then None
            else map_option Suc (find_assign n cs ss))
      else map_option Suc (find_assign n cs ss))"
| "find_assign (Suc n) cs ss = None"

definition blanks :: "string \<Rightarrow> nat" where
  "blanks s = length (takeWhile (\<lambda>c. c = CHR '' '') s)"

definition literal_after :: "nat \<Rightarrow> nat \<Rightarrow> string \<Rightarrow> lex_state list \<Rightarrow> (nat \<times> nat) list" where
  "literal_after minlen col s ss =
     (if minlen \<le> length (literal_body (literal_at (drop (blanks s) s) (drop (blanks s) ss)))
      then [(col + blanks s, length (literal_at (drop (blanks s) s) (drop (blanks s) ss)))]
      else [])"

definition near_literal :: "string list \<Rightarrow> nat \<Rightarrow> nat \<Rightarrow> rule" where
  "near_literal names n minlen col prev s ss =
     (if match_in (plain_match names) in_code col prev s ss = [] then []
      else (case find_assign n (dropWhile is_word_char s)
                   (drop (length (takeWhile is_word_char s)) ss) of
              None \<Rightarrow> []
            | Some j \<Rightarrow>
                literal_after minlen (col + length (takeWhile is_word_char s) + j + 1)
                  (drop (j + 1) (dropWhile is_word_char s))
                  (drop (length (takeWhile is_word_char s) + j + 1) ss)))"

definition secret_names :: "string list" where
  "secret_names = [''secret'', ''password'', ''apikey'', ''api_key'', ''api-key'', ''token'']"

definition HARDCODED_SECRET :: rule where
  "HARDCODED_SECRET = near_literal secret_names 40 6"

subsection \<open>The leak heuristic\<close>

text \<open>
  Modelled from the spec: the rule POSSIBLE_MEMORY_LEAK (section 4.3), which the
  repository does not contain: "for each heap-allocation primitive call (deny-list:
  malloc|calloc|realloc|new\s), scan forward within the same enclosing balanced-brace
  block for any release primitive (free|delete) whose argument token matches the
  receiving identifier. Absence emits the finding at the allocation site."

  The receiving identifier is the one on the left of the assignment the call stands in.
  The block ends at the first closing brace in code that has no opening brace after the
  call.
\<close>

definition alloc_match :: matcher where
  "alloc_match prev s =
     (if 0 < call_match [''malloc'', ''calloc'', ''realloc''] prev s
      then call_match [''malloc'', ''calloc'', ''realloc''] prev s
      else if prefix ''new '' s then word_match [''new''] prev s
      else 0)"

definition receiver :: "string \<Rightarrow> string" where
  "receiver prev =
     rev (takeWhile is_word_char
            (dropWhile (\<lambda>c. c = CHR '' '')
               (drop 1 (dropWhile (\<lambda>c. c \<noteq> CHR ''='')
                          (takeWhile (\<lambda>c. c \<notin> set '';{}'') prev)))))"

definition arg_token :: "string \<Rightarrow> string" where
  "arg_token s = takeWhile is_word_char (dropWhile (\<lambda>c. c \<in> set ''([] '') s)"

definition release_match :: "string \<Rightarrow> matcher" where
  "release_match recv prev s =
     (if 0 < word_match [''free'', ''delete''] prev s
      then (if arg_token (drop (word_match [''free'', ''delete''] prev s) s) = recv
            then word_match [''free'', ''delete''] prev s else 0)
      else 0)"

text \<open>
  \<open>block_walk d l ss k\<close> walks a line at brace depth \<open>d\<close>: the number of bytes of the line
  that lie in the block (added to \<open>k\<close>), whether the block ends in the line, and the depth
  at the end of the line.
\<close>

fun block_walk :: "nat \<Rightarrow> string \<Rightarrow> lex_state list \<Rightarrow> nat \<Rightarrow> nat \<times> bool \<times> nat" where
  "block_walk d (c # cs) (s # ss) k =
     (if s = Code
      then (if c = CHR ''{'' then block_walk (Suc d) cs ss (Suc k)
            else if c = CHR ''}''
                 then (if d = 0 then (k, True, 0) else block_walk (d - 1) cs ss (Suc k))
                 else block_walk d cs ss (Suc k))
      else block_walk d cs ss (Suc k))"
| "block_walk d cs ss k = (k, False, d)"

fun block_after ::
  "nat \<Rightarrow> (string \<times> lex_state list) list \<Rightarrow> (string \<times> lex_state list) list" where
  "block_after d [] = []"
| "block_after d ((l, ss) # rest) =
     (if fst (snd (block_walk d l ss 0))
      then [(take (fst (block_walk d l ss 0)) l, take (fst (block_walk d l ss 0)) ss)]
      else (l, ss) # block_after (snd (snd (block_walk d l ss 0))) rest)"

definition released :: "string \<Rightarrow> (string \<times> lex_state list) list \<Rightarrow> bool" where
  "released recv block =
     list_ex (\<lambda>(l, ss). walk_line (match_in (release_match recv) in_code) 1 [] l ss \<noteq> []) block"

definition leak_at ::
  "string \<Rightarrow> lex_state list \<Rightarrow> (string \<times> lex_state list) list \<Rightarrow> nat \<times> nat \<Rightarrow> bool" where
  "leak_at l ss rest site =
     (case site of (col, k) \<Rightarrow>
        \<not> released (receiver (rev (take (col - 1) l)))
            (block_after 0 ((drop (col - 1 + k) l, drop (col - 1 + k) ss) # rest)))"

fun leak_lines :: "nat \<Rightarrow> (string \<times> lex_state list) list \<Rightarrow> finding list" where
  "leak_lines n [] = []"
| "leak_lines n ((l, ss) # rest) =
     (if walk_line (match_in alloc_match in_code) 1 [] l ss = [] then leak_lines (Suc n) rest
      else map (\<lambda>(col, k). (n, col, k))
             (filter (leak_at l ss rest) (walk_line (match_in alloc_match in_code) 1 [] l ss))
           @ leak_lines (Suc n) rest)"

definition POSSIBLE_MEMORY_LEAK :: "string list \<Rightarrow> finding list" where
  "POSSIBLE_MEMORY_LEAK ls = leak_lines 1 (zip ls (lex_lines Code ls))"

section \<open>Properties of the programs\<close>

subsection \<open>Division\<close>

lemma sint_word_of_int_fits: "int_fits k \<Longrightarrow> sint (word_of_int k :: cint) = k"
  unfolding int_fits_def by (simp add: int_word_sint)

lemma abs_div_le:
  fixes A B :: int
  assumes "k \<le> \<bar>B\<bar>" and "0 < k"
  shows "\<bar>A\<bar> div \<bar>B\<bar> \<le> \<bar>A\<bar> div k"
  by (rule zdiv_mono2) (use assms in auto)

lemma abs_sdiv:
  fixes A B :: int
  shows "\<bar>A sdiv B\<bar> = \<bar>A\<bar> div \<bar>B\<bar>"
  by (cases "A = 0"; cases "B = 0")
    (simp_all add: signed_divide_int_def abs_mult abs_sgn_eq pos_imp_zdiv_nonneg_iff)

lemma sdiv_fits:
  fixes A B :: int
  assumes "- (2 ^ 31) \<le> A" and "A < 2 ^ 31" and "B \<noteq> 0"
    and "\<not> (A = - (2 ^ 31) \<and> B = - 1)"
  shows "int_fits (A sdiv B)"
proof (cases "\<bar>B\<bar> = 1")
  case True
  then consider "B = 1" | "B = - 1" by linarith
  then show ?thesis
  proof cases
    case 1
    then show ?thesis using assms(1,2) by (simp add: int_fits_def)
  next
    case 2
    then show ?thesis using assms(1,2,4) by (simp add: int_fits_def)
  qed
next
  case False
  then have "2 \<le> \<bar>B\<bar>" using assms(3) by linarith
  then have "\<bar>A\<bar> div \<bar>B\<bar> \<le> \<bar>A\<bar> div 2" by (rule abs_div_le) simp
  then have "\<bar>A sdiv B\<bar> \<le> \<bar>A\<bar> div 2" by (simp add: abs_sdiv)
  moreover have "\<bar>A\<bar> div 2 < 2 ^ 31" using assms(1,2) by linarith
  ultimately show ?thesis unfolding int_fits_def by linarith
qed

lemma sdiv_remainder:
  fixes A B :: int
  assumes "B \<noteq> 0"
  shows "\<bar>A - (A sdiv B) * B\<bar> < \<bar>B\<bar>"
    and "A - (A sdiv B) * B = 0 \<or> sgn (A - (A sdiv B) * B) = sgn A"
proof -
  have r: "A - (A sdiv B) * B = sgn A * (\<bar>A\<bar> mod \<bar>B\<bar>)"
    by (simp add: minus_sdiv_mult_eq_smod smod_int_alt_def)
  have m: "0 \<le> \<bar>A\<bar> mod \<bar>B\<bar>" "\<bar>A\<bar> mod \<bar>B\<bar> < \<bar>B\<bar>"
    using assms by simp_all
  have "\<bar>sgn A * (\<bar>A\<bar> mod \<bar>B\<bar>)\<bar> \<le> \<bar>A\<bar> mod \<bar>B\<bar>"
    using m(1) by (cases "A = 0") (simp_all add: abs_mult abs_sgn_eq)
  then show "\<bar>A - (A sdiv B) * B\<bar> < \<bar>B\<bar>"
    using m(2) unfolding r by linarith
  show "A - (A sdiv B) * B = 0 \<or> sgn (A - (A sdiv B) * B) = sgn A"
    unfolding r using m(1) by (cases "\<bar>A\<bar> mod \<bar>B\<bar> = 0") (simp_all add: sgn_mult)
qed

lemma sint_min_iff: "sint (a :: cint) = - (2 ^ 31) \<longleftrightarrow> a = - 2147483648"
proof
  assume "sint a = - (2 ^ 31)"
  then have "sint a = sint (- 2147483648 :: cint)" by simp
  then show "a = - 2147483648" by (rule signed_word_eqI)
qed simp

lemma sint_minus_one_iff: "sint (a :: cint) = - 1 \<longleftrightarrow> a = - 1"
  by (metis sint_n1 signed_word_eqI)

lemma c_div_value:
  assumes "b \<noteq> 0" and "\<not> (a = - 2147483648 \<and> b = - 1)"
  shows "c_div a b = Inr (word_of_int (sint a sdiv sint b))"
    and "sint (word_of_int (sint a sdiv sint b) :: cint) = sint a sdiv sint b"
proof -
  have nz: "sint b \<noteq> 0" using assms(1) by (simp add: signed_eq_0_iff)
  have ex: "\<not> (sint a = - (2 ^ 31) \<and> sint b = - 1)"
    unfolding sint_min_iff sint_minus_one_iff by (rule assms(2))
  have lo: "- (2 ^ 31) \<le> sint a" using sint_ge [of a] by simp
  have hi: "sint a < 2 ^ 31" using sint_lt [of a] by simp
  have fits: "int_fits (sint a sdiv sint b)"
    by (rule sdiv_fits [OF lo hi nz ex])
  show "c_div a b = Inr (word_of_int (sint a sdiv sint b))"
    using assms(1) fits by (simp add: c_div_def)
  show "sint (word_of_int (sint a sdiv sint b) :: cint) = sint a sdiv sint b"
    by (rule sint_word_of_int_fits [OF fits])
qed

lemma c_div_zero: "c_div a 0 = Inl DivideByZero"
  by (simp add: c_div_def)

lemma c_div_overflow: "c_div (- 2147483648) (- 1) = Inl SignedOverflow"
  by (simp add: c_div_def int_fits_def)

subsection \<open>Strings in the store\<close>

lemma c_str_written: "c_str (map Some l @ Some NUL # r) = Inr (takeWhile (\<lambda>c. c \<noteq> NUL) l)"
  by (induction l) auto

lemma c_str_Inr: "c_str cs = Inr s \<Longrightarrow> NUL \<notin> set s \<and> length s < length cs"
proof (induction cs arbitrary: s)
  case Nil
  then show ?case by simp
next
  case (Cons c cs)
  then show ?case
    by (cases c) (auto split: if_splits sum.splits)
qed

lemma string_at_no_NUL: "string_at w p = Inr s \<Longrightarrow> NUL \<notin> set s"
  by (cases p) (auto simp: string_at_def dest: c_str_Inr set_takeWhileD split: if_splits)

lemma string_at_not_fresh: "string_at w p = Inr s \<Longrightarrow> p \<noteq> Blk (length (mem w))"
  by (auto simp: string_at_def)

lemma string_at_alloc:
  "string_at w p = Inr s \<Longrightarrow> string_at (w\<lparr>mem := mem w @ bs\<rparr>) p = Inr s"
  by (cases p) (auto simp: string_at_def nth_append split: if_splits)

lemma string_at_fresh:
  "NUL \<notin> set s \<Longrightarrow>
   string_at (w\<lparr>mem := m @ [map Some s @ Some NUL # r]\<rparr>) (Blk (length m)) = Inr s"
  by (auto simp: string_at_def c_str_written takeWhile_eq_all_conv)

lemma write_bytes_fresh:
  "write_bytes (w\<lparr>mem := m @ [b]\<rparr>) (Blk (length m)) off bs =
     (if length b < off + length bs then Inl BufferOverflow
      else Inr (w\<lparr>mem := m @ [take off b @ map Some bs @ drop (off + length bs) b]\<rparr>))"
  by (simp add: write_bytes_def)

lemma format_plain: "CHR ''%'' \<notin> set fs \<Longrightarrow> format w fs args = Inr fs"
  by (induction w fs args rule: format.induct) auto

lemma format_s:
  "CHR ''%'' \<notin> set pre \<Longrightarrow> CHR ''%'' \<notin> set post \<Longrightarrow> string_at w p = Inr s \<Longrightarrow>
   format w (pre @ ''%s'' @ post) [AStr p] = Inr (pre @ s @ post)"
proof (induction pre)
  case Nil
  then show ?case by (simp add: format_plain)
next
  case (Cons c pre)
  then show ?case by (cases pre) auto
qed

subsection \<open>\<open>buildGreeting\<close>\<close>

lemma buildGreeting_run:
  assumes "string_at w name = Inr s" and "length s \<le> 43"
  shows "buildGreeting name w =
           Return (Blk (length (mem w)))
             (w\<lparr>mem := mem w @ [map Some (''Hello '' @ s) @ Some NUL # replicate (43 - length s) None]\<rparr>)"
proof -
  let ?g = "Blk (length (mem w))"
  let ?w1 = "w\<lparr>mem := mem w @ [replicate 50 None]\<rparr>"
  let ?w2 = "w\<lparr>mem := mem w @ [map Some ''Hello '' @ Some NUL # replicate 43 None]\<rparr>"
  have ne: "?g \<noteq> name" using string_at_not_fresh [OF assms(1)] by auto
  have 1: "strcpy ?g (Lit ''Hello '') ?w1 = Return () ?w2"
    by (simp add: strcpy_def string_at_def write_bytes_fresh)
  have d: "string_at ?w2 ?g = Inr ''Hello ''"
    by (rule string_at_fresh) simp
  have s: "string_at ?w2 name = Inr s"
    by (rule string_at_alloc [OF assms(1)])
  have 2: "strcat ?g name ?w2 =
     Return () (w\<lparr>mem := mem w @ [map Some (''Hello '' @ s) @ Some NUL # replicate (43 - length s) None]\<rparr>)"
    using assms(2) ne unfolding strcat_def d s
    by (simp add: write_bytes_fresh)
  show ?thesis
    using 1 2 unfolding buildGreeting_def malloc_def alloc_def
    by simp
qed

lemma buildGreeting_overflow:
  assumes "string_at w name = Inr s" and "43 < length s"
  shows "\<exists>w'. buildGreeting name w = Crash BufferOverflow w'"
proof -
  let ?g = "Blk (length (mem w))"
  let ?w1 = "w\<lparr>mem := mem w @ [replicate 50 None]\<rparr>"
  let ?w2 = "w\<lparr>mem := mem w @ [map Some ''Hello '' @ Some NUL # replicate 43 None]\<rparr>"
  have ne: "?g \<noteq> name" using string_at_not_fresh [OF assms(1)] by auto
  have 1: "strcpy ?g (Lit ''Hello '') ?w1 = Return () ?w2"
    by (simp add: strcpy_def string_at_def write_bytes_fresh)
  have d: "string_at ?w2 ?g = Inr ''Hello ''"
    by (rule string_at_fresh) simp
  have s: "string_at ?w2 name = Inr s"
    by (rule string_at_alloc [OF assms(1)])
  have 2: "strcat ?g name ?w2 = Crash BufferOverflow ?w2"
    using assms(2) ne unfolding strcat_def d s
    by (simp add: write_bytes_fresh)
  show ?thesis
    using 1 2 unfolding buildGreeting_def malloc_def alloc_def
    by simp
qed

subsection \<open>The queries\<close>

lemma queryDatabase_format_split:
  "queryDatabase_format = (''SELECT * FROM users WHERE name = '' @ [QUOTE]) @ ''%s'' @ [QUOTE, CHR '';'']"
  by (simp add: queryDatabase_format_def)

lemma processData_format_split:
  "processData_format = (''SELECT * FROM users WHERE name = '' @ [QUOTE]) @ ''%s'' @ [QUOTE]"
  by (simp add: processData_format_def)

lemma sprintf_fresh:
  assumes "string_at w p = Inr s" and "CHR ''%'' \<notin> set pre" and "CHR ''%'' \<notin> set post"
  shows "sprintf (Blk (length (mem w))) (pre @ ''%s'' @ post) [AStr p]
           (w\<lparr>mem := mem w @ [replicate n None]\<rparr>) =
         (if length pre + length s + length post < n
          then Return () (w\<lparr>mem := mem w @ [map Some (pre @ s @ post) @ Some NUL #
                      replicate (n - Suc (length pre + length s + length post)) None]\<rparr>)
          else Crash BufferOverflow (w\<lparr>mem := mem w @ [replicate n None]\<rparr>))"
proof -
  let ?w1 = "w\<lparr>mem := mem w @ [replicate n None]\<rparr>"
  have ne: "p \<noteq> Blk (length (mem w))" by (rule string_at_not_fresh [OF assms(1)])
  have f: "format ?w1 (pre @ ''%s'' @ post) [AStr p] = Inr (pre @ s @ post)"
    by (rule format_s [OF assms(2,3) string_at_alloc [OF assms(1)]])
  show ?thesis
    unfolding sprintf_def f using ne
    by (auto simp add: write_bytes_fresh)
qed

lemma queryDatabase_sprintf:
  assumes "string_at w p = Inr s"
  shows "sprintf (Blk (length (mem w))) queryDatabase_format [AStr p]
             (w\<lparr>mem := mem w @ [replicate 200 None]\<rparr>) =
         (if length s \<le> 163
          then Return () (w\<lparr>mem := mem w @
                 [map Some (''SELECT * FROM users WHERE name = '' @ [QUOTE] @ s @ [QUOTE, CHR '';''])
                  @ Some NUL # replicate (163 - length s) None]\<rparr>)
          else Crash BufferOverflow (w\<lparr>mem := mem w @ [replicate 200 None]\<rparr>))"
  unfolding queryDatabase_format_split
  using sprintf_fresh [OF assms, of "''SELECT * FROM users WHERE name = '' @ [QUOTE]"
      "[QUOTE, CHR '';'']" 200]
  by (auto simp: Suc_diff_le)

lemma processData_sprintf:
  assumes "string_at w p = Inr s"
  shows "sprintf (Blk (length (mem w))) processData_format [AStr p]
             (w\<lparr>mem := mem w @ [replicate 200 None]\<rparr>) =
         (if length s \<le> 164
          then Return () (w\<lparr>mem := mem w @
                 [map Some (''SELECT * FROM users WHERE name = '' @ [QUOTE] @ s @ [QUOTE])
                  @ Some NUL # replicate (164 - length s) None]\<rparr>)
          else Crash BufferOverflow (w\<lparr>mem := mem w @ [replicate 200 None]\<rparr>))"
  unfolding processData_format_split
  using sprintf_fresh [OF assms, of "''SELECT * FROM users WHERE name = '' @ [QUOTE]"
      "[QUOTE]" 200]
  by (auto simp: Suc_diff_le)

lemma queryDatabase_run:
  assumes "string_at w p = Inr s" and "length s \<le> 163"
  shows "queryDatabase p w =
           Return () (w\<lparr>stdout := stdout w @ ''Executing query: '' @
              ''SELECT * FROM users WHERE name = '' @ [QUOTE] @ s @ [QUOTE, CHR '';''] @ [NL]\<rparr>)"
proof -
  let ?q = "''SELECT * FROM users WHERE name = '' @ [QUOTE] @ s @ [QUOTE, CHR '';'']"
  let ?w2 = "w\<lparr>mem := mem w @ [map Some ?q @ Some NUL # replicate (163 - length s) None]\<rparr>"
  have n: "NUL \<notin> set s" by (rule string_at_no_NUL [OF assms(1)])
  have 1: "sprintf (Blk (length (mem w))) queryDatabase_format [AStr p]
             (w\<lparr>mem := mem w @ [replicate 200 None]\<rparr>) = Return () ?w2"
    using queryDatabase_sprintf [OF assms(1)] assms(2) by simp
  have q: "string_at ?w2 (Blk (length (mem w))) = Inr ?q"
    by (rule string_at_fresh) (use n in simp)
  have 2: "format ?w2 (''Executing query: '' @ ''%s'' @ [NL]) [AStr (Blk (length (mem w)))]
            = Inr (''Executing query: '' @ ?q @ [NL])"
    by (rule format_s [OF _ _ q]) simp_all
  have 3: "printf (''Executing query: %s'' @ [NL]) [AStr (Blk (length (mem w)))] ?w2
            = Return () (?w2\<lparr>stdout := stdout w @ ''Executing query: '' @ ?q @ [NL]\<rparr>)"
    using 2 by (simp add: printf_def)
  show ?thesis
    using 1 3 unfolding queryDatabase_def alloc_def
    by (simp add: leave_def)
qed

lemma processData_run:
  assumes "string_at w p = Inr s" and "length s \<le> 164"
  shows "processData this p w =
           Return () (w\<lparr>stdout := stdout w @
              ''SELECT * FROM users WHERE name = '' @ [QUOTE] @ s @ [QUOTE] @ [NL]\<rparr>)"
proof -
  let ?q = "''SELECT * FROM users WHERE name = '' @ [QUOTE] @ s @ [QUOTE]"
  let ?w2 = "w\<lparr>mem := mem w @ [map Some ?q @ Some NUL # replicate (164 - length s) None]\<rparr>"
  have n: "NUL \<notin> set s" by (rule string_at_no_NUL [OF assms(1)])
  have 1: "sprintf (Blk (length (mem w))) processData_format [AStr p]
             (w\<lparr>mem := mem w @ [replicate 200 None]\<rparr>) = Return () ?w2"
    using processData_sprintf [OF assms(1)] assms(2) by simp
  have q: "string_at ?w2 (Blk (length (mem w))) = Inr ?q"
    by (rule string_at_fresh) (use n in simp)
  show ?thesis
    using 1 q unfolding processData_def alloc_def
    by (simp add: lift_def cout_def endl_def leave_def)
qed

subsection \<open>\<open>gets\<close>\<close>

lemma gets_overflow:
  assumes "i < length (mem w)" and "0 < length (mem w ! i)"
    and "length (mem w ! i) \<le> length (takeWhile (\<lambda>c. c \<noteq> NL) (stdin w))"
  shows "gets (Blk i) w = Crash BufferOverflow w"
proof -
  have "takeWhile (\<lambda>c. c \<noteq> NL) (stdin w) \<noteq> []" using assms(2,3) by auto
  then show ?thesis
    using assms by (simp add: gets_def Let_def write_bytes_def)
qed

lemma gets_fits:
  assumes "i < length (mem w)" and "stdin w \<noteq> []"
    and "length (takeWhile (\<lambda>c. c \<noteq> NL) (stdin w)) < length (mem w ! i)"
  shows "gets (Blk i) w =
     Return (Some (Blk i))
       (w\<lparr>mem := (mem w)[i := map Some (takeWhile (\<lambda>c. c \<noteq> NL) (stdin w)) @ Some NUL #
                drop (Suc (length (takeWhile (\<lambda>c. c \<noteq> NL) (stdin w)))) (mem w ! i)],
          stdin := drop (Suc (length (takeWhile (\<lambda>c. c \<noteq> NL) (stdin w)))) (stdin w)\<rparr>)"
proof -
  have "takeWhile (\<lambda>c. c \<noteq> NL) (stdin w) = [] \<Longrightarrow>
        drop (length (takeWhile (\<lambda>c. c \<noteq> NL) (stdin w))) (stdin w) \<noteq> []"
    using assms(2) by simp
  then show ?thesis
    using assms by (auto simp add: gets_def Let_def write_bytes_def)
qed

lemma getUserInput_overflow:
  assumes "10 \<le> length (takeWhile (\<lambda>c. c \<noteq> NL) (stdin w))"
  shows "getUserInput (fst (c_main_name w)) (snd (c_main_name w)) =
           Crash BufferOverflow
             (w\<lparr>mem := mem w @ [replicate 10 None], stdout := stdout w @ ''Enter your name: ''\<rparr>)"
proof -
  let ?w1 = "w\<lparr>mem := mem w @ [replicate 10 None], stdout := stdout w @ ''Enter your name: ''\<rparr>"
  have "gets (Blk (length (mem w))) ?w1 = Crash BufferOverflow ?w1"
    by (rule gets_overflow) (use assms in simp_all)
  then show ?thesis
    by (simp add: getUserInput_def c_main_name_def alloc_def printf_def)
qed

lemma getUserInput_fits:
  assumes "stdin w \<noteq> []" and "length (takeWhile (\<lambda>c. c \<noteq> NL) (stdin w)) < 10"
  shows "\<exists>w'. getUserInput (fst (c_main_name w)) (snd (c_main_name w)) = Return () w'"
proof -
  let ?w1 = "w\<lparr>mem := mem w @ [replicate 10 None], stdout := stdout w @ ''Enter your name: ''\<rparr>"
  have "\<exists>w'. gets (Blk (length (mem w))) ?w1 = Return (Some (Blk (length (mem w)))) w'"
    using gets_fits [of "length (mem w)" ?w1] assms by simp
  then show ?thesis
    by (auto simp add: getUserInput_def c_main_name_def alloc_def printf_def)
qed

lemma unsafeInput_overflow:
  assumes "50 \<le> length (takeWhile (\<lambda>c. c \<noteq> NL) (stdin w))"
  shows "unsafeInput this w =
           Crash BufferOverflow
             (w\<lparr>mem := mem w @ [replicate 50 None], stdout := stdout w @ ''Enter data: ''\<rparr>)"
proof -
  let ?w1 = "w\<lparr>mem := mem w @ [replicate 50 None], stdout := stdout w @ ''Enter data: ''\<rparr>"
  have "gets (Blk (length (mem w))) ?w1 = Crash BufferOverflow ?w1"
    by (rule gets_overflow) (use assms in simp_all)
  then show ?thesis
    by (simp add: unsafeInput_def alloc_def cout_def)
qed

subsection \<open>\<open>main\<close> of the C++ fixture\<close>

lemma unsafeInput_run:
  assumes b: "buffer this = Blk b" "b < length (mem v)" "50 \<le> length (mem v ! b)"
    and i: "stdin v \<noteq> []" "length (takeWhile (\<lambda>c. c \<noteq> NL) (stdin v)) < 50"
  shows "unsafeInput this v =
     Return ()
       (v\<lparr>mem := (mem v)[b := map Some (takeWhile (\<lambda>c. c \<noteq> NUL) (takeWhile (\<lambda>c. c \<noteq> NL) (stdin v)))
                   @ Some NUL # drop (Suc (length (takeWhile (\<lambda>c. c \<noteq> NUL)
                        (takeWhile (\<lambda>c. c \<noteq> NL) (stdin v))))) (mem v ! b)],
          stdin := drop (Suc (length (takeWhile (\<lambda>c. c \<noteq> NL) (stdin v)))) (stdin v),
          stdout := stdout v @ ''Enter data: ''\<rparr>)"
proof -
  let ?line = "takeWhile (\<lambda>c. c \<noteq> NL) (stdin v)"
  let ?s = "takeWhile (\<lambda>c. c \<noteq> NUL) ?line"
  let ?v1 = "v\<lparr>mem := mem v @ [replicate 50 None], stdout := stdout v @ ''Enter data: ''\<rparr>"
  let ?v2 = "v\<lparr>mem := mem v @ [map Some ?line @ Some NUL # replicate (49 - length ?line) None],
               stdin := drop (Suc (length ?line)) (stdin v),
               stdout := stdout v @ ''Enter data: ''\<rparr>"
  have 1: "gets (Blk (length (mem v))) ?v1 = Return (Some (Blk (length (mem v)))) ?v2"
    using gets_fits [of "length (mem v)" ?v1] i by simp
  have 2: "string_at ?v2 (Blk (length (mem v))) = Inr ?s"
    by (simp add: string_at_def c_str_written)
  have l: "length ?s \<le> length ?line" by (rule length_takeWhile_le)
  have 3: "strcpy (Blk b) (Blk (length (mem v))) ?v2 =
      Return () (?v2\<lparr>mem := (mem v @ [map Some ?line @ Some NUL # replicate (49 - length ?line) None])
                  [b := map Some ?s @ Some NUL # drop (Suc (length ?s)) (mem v ! b)]\<rparr>)"
    unfolding strcpy_def 2 using b i l
    by (simp add: write_bytes_def nth_append)
  show ?thesis
    using 1 3 b unfolding unsafeInput_def alloc_def
    by (simp add: cout_def leave_def list_update_append1)
qed

lemma cpp_main_45_49_run:
  assumes i: "stdin w \<noteq> []" "length (takeWhile (\<lambda>c. c \<noteq> NL) (stdin w)) < 50"
  shows "cpp_main_45_49 w =
     Return \<lparr>buffer = Blk (length (mem w))\<rparr>
       (w\<lparr>mem := mem w @ [map Some (takeWhile (\<lambda>c. c \<noteq> NUL) (takeWhile (\<lambda>c. c \<noteq> NL) (stdin w)))
                   @ Some NUL # replicate (99 - length (takeWhile (\<lambda>c. c \<noteq> NUL)
                        (takeWhile (\<lambda>c. c \<noteq> NL) (stdin w)))) None],
          stdin := drop (Suc (length (takeWhile (\<lambda>c. c \<noteq> NL) (stdin w)))) (stdin w),
          stdout := stdout w @ ''Enter data: '' @ ''SELECT * FROM users WHERE name = '' @ [QUOTE]
                    @ ''admin'; DROP TABLE users; --'' @ [QUOTE] @ [NL]\<rparr>)"
proof -
  let ?line = "takeWhile (\<lambda>c. c \<noteq> NL) (stdin w)"
  let ?s = "takeWhile (\<lambda>c. c \<noteq> NUL) ?line"
  let ?obj = "\<lparr>buffer = Blk (length (mem w))\<rparr>"
  let ?w1 = "w\<lparr>mem := mem w @ [replicate 100 None]\<rparr>"
  let ?w2 = "w\<lparr>mem := mem w @ [map Some ?s @ Some NUL # replicate (99 - length ?s) None],
          stdin := drop (Suc (length ?line)) (stdin w),
          stdout := stdout w @ ''Enter data: ''\<rparr>"
  have l: "length ?s \<le> length ?line" by (rule length_takeWhile_le)
  have 1: "unsafeInput ?obj ?w1 = Return () ?w2"
    using unsafeInput_run [of ?obj "length (mem w)" ?w1] i l by simp
  have 2: "processData ?obj (Lit ''admin'; DROP TABLE users; --'') ?w2 =
     Return () (?w2\<lparr>stdout := stdout ?w2 @ ''SELECT * FROM users WHERE name = '' @ [QUOTE]
                    @ ''admin'; DROP TABLE users; --'' @ [QUOTE] @ [NL]\<rparr>)"
    by (rule processData_run) (simp_all add: string_at_def)
  show ?thesis
    using 1 2 unfolding cpp_main_45_49_def UnsafeClass_new_def malloc_def alloc_def
    by simp
qed

lemma cpp_main_after_49:
  assumes "cpp_main_45_49 w = Return obj w'"
  shows "cpp_main w = Crash DivideByZero (cpp_main_51 w')"
  using assms
  by (simp add: cpp_main_def cpp_main_53_56_def UnsafeClass_divide_def c_div_zero lift_def)

lemma cpp_main_51_stdout:
  "stdout (cpp_main_51 w) = stdout w @ ''API Secret: sk-abc123456789'' @ [NL]"
  by (simp add: cpp_main_51_def cout_def endl_def api_secret_def)

lemma cpp_main_never_returns: "cpp_main w \<noteq> Return v w'"
proof (cases "cpp_main_45_49 w")
  case (Crash e u)
  then show ?thesis by (simp add: cpp_main_def)
next
  case (Return obj u)
  then show ?thesis using cpp_main_after_49 [OF Return] by simp
qed

lemma queryDatabase_overflow:
  assumes "string_at w p = Inr s" and "163 < length s"
  shows "\<exists>w'. queryDatabase p w = Crash BufferOverflow w'"
  using queryDatabase_sprintf [OF assms(1)] assms(2)
  unfolding queryDatabase_def alloc_def by simp

lemma processData_overflow:
  assumes "string_at w p = Inr s" and "164 < length s"
  shows "\<exists>w'. processData this p w = Crash BufferOverflow w'"
  using processData_sprintf [OF assms(1)] assms(2)
  unfolding processData_def alloc_def by simp

lemma queryDatabase_buffer:
  assumes "string_at w p = Inr s" and "length s \<le> 163"
  shows "\<exists>w'. sprintf (fst (alloc 200 w)) queryDatabase_format [AStr p] (snd (alloc 200 w))
                 = Return () w'
              \<and> string_at w' (fst (alloc 200 w))
                 = Inr (''SELECT * FROM users WHERE name = '' @ [QUOTE] @ s @ [QUOTE, CHR '';''])"
proof -
  have n: "NUL \<notin> set s" by (rule string_at_no_NUL [OF assms(1)])
  have "string_at
          (w\<lparr>mem := mem w @
             [map Some (''SELECT * FROM users WHERE name = '' @ [QUOTE] @ s @ [QUOTE, CHR '';''])
              @ Some NUL # replicate (163 - length s) None]\<rparr>) (Blk (length (mem w)))
        = Inr (''SELECT * FROM users WHERE name = '' @ [QUOTE] @ s @ [QUOTE, CHR '';''])"
    by (rule string_at_fresh) (use n in simp)
  then show ?thesis
    using queryDatabase_sprintf [OF assms(1)] assms(2) by (simp add: alloc_def)
qed

lemma processData_buffer:
  assumes "string_at w p = Inr s" and "length s \<le> 164"
  shows "\<exists>w'. sprintf (fst (alloc 200 w)) processData_format [AStr p] (snd (alloc 200 w))
                 = Return () w'
              \<and> string_at w' (fst (alloc 200 w))
                 = Inr (''SELECT * FROM users WHERE name = '' @ [QUOTE] @ s @ [QUOTE])"
proof -
  have n: "NUL \<notin> set s" by (rule string_at_no_NUL [OF assms(1)])
  have "string_at
          (w\<lparr>mem := mem w @
             [map Some (''SELECT * FROM users WHERE name = '' @ [QUOTE] @ s @ [QUOTE])
              @ Some NUL # replicate (164 - length s) None]\<rparr>) (Blk (length (mem w)))
        = Inr (''SELECT * FROM users WHERE name = '' @ [QUOTE] @ s @ [QUOTE])"
    by (rule string_at_fresh) (use n in simp)
  then show ?thesis
    using processData_sprintf [OF assms(1)] assms(2) by (simp add: alloc_def)
qed

lemma cpp_main_run:
  assumes "input \<noteq> []" and "length (takeWhile (\<lambda>c. c \<noteq> NL) input) < 50"
  shows "\<exists>w'. cpp_main (start input) = Crash DivideByZero w'
            \<and> stdout w' = ''Enter data: '' @ ''SELECT * FROM users WHERE name = '' @ [QUOTE]
                 @ ''admin'; DROP TABLE users; --'' @ [QUOTE] @ [NL]
                 @ ''API Secret: sk-abc123456789'' @ [NL]"
proof -
  have i: "stdin (start input) \<noteq> []"
    "length (takeWhile (\<lambda>c. c \<noteq> NL) (stdin (start input))) < 50"
    using assms by (simp_all add: start_def)
  show ?thesis
    using cpp_main_after_49 [OF cpp_main_45_49_run [OF i]]
    by (simp add: cpp_main_51_stdout) (simp add: start_def)
qed

lemma c_main_stops: "c_main w = Crash UninitializedRead (snd (c_main_name w))"
  by (simp add: c_main_def read_var_def split: prod.split)

section \<open>The rules on the two files\<close>

text \<open>The model holds the files whole: their sizes are those of the files.\<close>

lemma fixture_sizes:
  "length unsafe_c_code = 1409"
  "length test_cpp_issues = 1642"
  by code_simp+

text \<open>The classes of characters, by their codes.\<close>

lemma is_lower_range: "is_lower c \<longleftrightarrow> (97::nat) \<le> of_char c \<and> of_char c \<le> (122::nat)"
  by (cases c) (auto simp: letter_index_def)

lemma is_upper_range: "is_upper c \<longleftrightarrow> (65::nat) \<le> of_char c \<and> of_char c \<le> (90::nat)"
  by (cases c) (auto simp: letter_index_def)

lemma is_decimal_range: "is_decimal c \<longleftrightarrow> (48::nat) \<le> of_char c \<and> of_char c \<le> (57::nat)"
  by (cases c) auto

lemma is_decimal_digit: "is_decimal c = is_digit c"
  by (simp add: is_decimal_range is_digit_def)

lemma contains_sublist: "contains pat s \<longleftrightarrow> sublist pat s"
  by (induction s) (auto simp: sublist_Cons_right)

subsection \<open>The walk by lines is the walk of the buffer\<close>

text \<open>
  The states that the walk by lines gives to the bytes of a line are those that the state
  machine, run over the whole buffer from its first byte, gives to the same bytes.
\<close>

lemma lex_step_NL:
  "lex_step st NL next = lex_step st NL None" "\<not> snd (snd (lex_step st NL next))"
  by (cases st; simp)+

lemma lex_step_before_NL:
  "fst (lex_step st c (Some NL)) = fst (lex_step st c None)"
  by (cases st) simp_all

lemma length_lex_from [simp]: "length (lex_from st x) = length x"
  by (induction st x rule: lex_from.induct) simp_all

lemma lex_from_split:
  "u = [] \<or> last u = NL \<Longrightarrow>
   lex_from st (u @ rest) = lex_from st u @ lex_from (lex_end st u) rest"
proof (induction st u rule: lex_from.induct)
  case (1 st)
  then show ?case by simp
next
  case (2 st c)
  then have c: "c = NL" by simp
  show ?case
  proof (cases rest)
    case Nil
    then show ?thesis by simp
  next
    case (Cons d ds)
    then show ?thesis
      using lex_step_NL [of st "Some d"] by (simp add: c)
  qed
next
  case (3 st c d cs)
  then have l: "cs = [] \<or> last cs = NL" "d # cs = [] \<or> last (d # cs) = NL"
    by (auto split: if_splits)
  show ?case
    using 3 l by simp
qed

lemma lex_end_split:
  "u = [] \<or> last u = NL \<Longrightarrow> lex_end st (u @ rest) = lex_end (lex_end st u) rest"
proof (induction st u rule: lex_end.induct)
  case (1 st)
  then show ?case by simp
next
  case (2 st c)
  then have c: "c = NL" by simp
  show ?case
  proof (cases rest)
    case Nil
    then show ?thesis by simp
  next
    case (Cons d ds)
    then show ?thesis
      using lex_step_NL [of st "Some d"] by (simp add: c)
  qed
next
  case (3 st c d cs)
  then have l: "cs = [] \<or> last cs = NL" "d # cs = [] \<or> last (d # cs) = NL"
    by (auto split: if_splits)
  show ?case
    using 3 l by simp
qed

lemma lex_from_without_NL: "take (length x) (lex_from st (x @ [NL])) = lex_from st x"
proof (induction st x rule: lex_from.induct)
  case (1 st)
  then show ?case by simp
next
  case (2 st c)
  then show ?case by (simp add: lex_step_before_NL)
next
  case (3 st c d cs)
  then show ?case by simp
qed


lemma lex_lines_nth:
  "i < length ls \<Longrightarrow>
   lex_lines st ls ! i =
     take (length (ls ! i))
       (drop (line_start ls i) (lex_from st (concat (map (\<lambda>l. l @ [NL]) ls))))"
proof (induction ls arbitrary: st i)
  case Nil
  then show ?case by simp
next
  case (Cons l ls)
  have s: "lex_from st (concat (map (\<lambda>l. l @ [NL]) (l # ls))) =
           lex_from st (l @ [NL]) @
           lex_from (lex_end st (l @ [NL])) (concat (map (\<lambda>l. l @ [NL]) ls))"
    using lex_from_split [of "l @ [NL]" st "concat (map (\<lambda>l. l @ [NL]) ls)"] by simp
  show ?case
  proof (cases i)
    case 0
    then show ?thesis unfolding s by (simp add: line_start_def)
  next
    case (Suc j)
    then have j: "j < length ls" using Cons.prems by simp
    show ?thesis
      unfolding s using Cons.IH [OF j, of "lex_end st (l @ [NL])"] Suc
      by (simp add: line_start_def)
  qed
qed

lemma join_lines_NL:
  "ls \<noteq> [] \<Longrightarrow> join_lines ls @ [NL] = concat (map (\<lambda>l. l @ [NL]) ls)"
proof -
  have c: "concat (map ((#) NL) rest) @ [NL] = NL # concat (map (\<lambda>l. l @ [NL]) rest)"
    for rest :: "string list"
    by (induction rest) simp_all
  assume "ls \<noteq> []"
  then show ?thesis
    by (cases ls) (simp_all add: join_lines_def c)
qed

lemma line_in_buffer:
  assumes "i < length ls"
  shows "line_start ls i + length (ls ! i) \<le> length (join_lines ls)"
proof -
  have ne: "ls \<noteq> []" using assms by auto
  have "ls = take i ls @ ls ! i # drop (Suc i) ls"
    using assms by (simp add: id_take_nth_drop)
  then have "concat (map (\<lambda>l. l @ [NL]) ls) =
             concat (map (\<lambda>l. l @ [NL]) (take i ls)) @ (ls ! i @ [NL])
             @ concat (map (\<lambda>l. l @ [NL]) (drop (Suc i) ls))"
    by (metis concat.simps(2) concat_append list.simps(9) map_append)
  then have "length (join_lines ls @ [NL]) =
             line_start ls i + length (ls ! i) + 1
             + length (concat (map (\<lambda>l. l @ [NL]) (drop (Suc i) ls)))"
    unfolding join_lines_NL [OF ne] line_start_def by simp
  then show ?thesis by simp
qed

lemma lex_lines_byte_walk:
  assumes "i < length ls"
  shows "lex_lines st ls ! i =
           take (length (ls ! i)) (drop (line_start ls i) (lex_from st (join_lines ls)))"
proof -
  have ne: "ls \<noteq> []" using assms by auto
  have w: "lex_from st (join_lines ls) =
           take (length (join_lines ls)) (lex_from st (concat (map (\<lambda>l. l @ [NL]) ls)))"
    using lex_from_without_NL [of "join_lines ls" st] by (simp add: join_lines_NL [OF ne])
  show ?thesis
    unfolding w lex_lines_nth [OF assms]
    using line_in_buffer [OF assms]
    by (simp add: drop_take min_def)
qed

subsection \<open>HARDCODED_SECRET\<close>

lemma c_secret_findings: "scan HARDCODED_SECRET unsafe_c_code_lines = [(5, 28, 10)]"
  by code_simp

lemma cpp_secret_findings: "scan HARDCODED_SECRET test_cpp_issues_lines = [(8, 21, 17)]"
  by code_simp

lemma c_secret_identifier:
  "scan (match_in (word_match [''global_password'']) in_code) unsafe_c_code_lines = [(5, 6, 15)]"
  by code_simp

lemma cpp_secret_identifier:
  "scan (match_in (word_match [''api_secret'']) in_code) test_cpp_issues_lines
     = [(8, 8, 10), (51, 31, 10)]"
  by code_simp

lemma c_secret_line:
  \<open>take 38 (unsafe_c_code_lines ! 4) = ''char global_password[20] = "admin123";''\<close>
  by code_simp

lemma cpp_secret_line:
  \<open>take 38 (test_cpp_issues_lines ! 7) = ''string api_secret = "sk-abc123456789";''\<close>
  by code_simp

lemma secret_spans:
  "span_text unsafe_c_code_lines (5, 6, 15) = ''global_password''"
  "span_text unsafe_c_code_lines (5, 21, 7) = ''[20] = ''"
  "literal_body (span_text unsafe_c_code_lines (5, 28, 10)) = ''admin123''"
  "span_text test_cpp_issues_lines (8, 8, 10) = ''api_secret''"
  "span_text test_cpp_issues_lines (8, 18, 3) = '' = ''"
  "literal_body (span_text test_cpp_issues_lines (8, 21, 17)) = ''sk-abc123456789''"
  by code_simp+

lemma secret_names_match:
  "contains ''password'' ''global_password''" "contains ''secret'' ''api_secret''"
  "''password'' \<in> set secret_names" "''secret'' \<in> set secret_names"
  by code_simp+

subsection \<open>FORMATTED_QUERY\<close>

lemma c_query_findings: "scan FORMATTED_QUERY unsafe_c_code_lines = [(24, 5, 7)]"
  by code_simp

lemma cpp_query_findings: "scan FORMATTED_QUERY test_cpp_issues_lines = [(28, 9, 7)]"
  by code_simp

lemma query_formats_in_text:
  "span_text unsafe_c_code_lines (24, 5, 7) = ''sprintf''"
  "statement_literals (drop 4 (unsafe_c_code_lines ! 23))
     (drop 4 (lex_lines Code unsafe_c_code_lines ! 23)) = [queryDatabase_format]"
  "span_text test_cpp_issues_lines (28, 9, 7) = ''sprintf''"
  "statement_literals (drop 8 (test_cpp_issues_lines ! 27))
     (drop 8 (lex_lines Code test_cpp_issues_lines ! 27)) = [processData_format]"
  by code_simp+

lemma query_formats_match:
  "query_literal queryDatabase_format" "query_literal processData_format"
  "contains ''SELECT'' queryDatabase_format" "contains ''%s'' queryDatabase_format"
  "contains ''SELECT'' processData_format" "contains ''%s'' processData_format"
  by code_simp+

subsection \<open>The variable \<open>result\<close> and the variable \<open>api_secret\<close>\<close>

lemma result_occurrences:
  "scan (match_in (word_match [''result'']) in_code) unsafe_c_code_lines
     = [(35, 15, 6), (38, 43, 6)]"
  by code_simp

lemma result_lines:
  \<open>unsafe_c_code_lines ! 34 = ''    int x, y, result;''\<close>
  \<open>unsafe_c_code_lines ! 37
     = ''    printf("Uninitialized result = %d'' @ [BACKSLASH] @ ''n", result);''\<close>
  by code_simp+

lemma api_secret_lines:
  \<open>take 38 (test_cpp_issues_lines ! 7) = ''string api_secret = "sk-abc123456789";''\<close>
  \<open>take 49 (test_cpp_issues_lines ! 50)
     = ''    cout << "API Secret: " << api_secret << endl;''\<close>
  by code_simp+

subsection \<open>POSSIBLE_MEMORY_LEAK\<close>

lemma no_release_outside_comments:
  "scan (match_in (plain_match [''free'', ''delete'']) outside_comment) unsafe_c_code_lines = []"
  "scan (match_in (plain_match [''free'', ''delete'']) outside_comment) test_cpp_issues_lines = []"
  by code_simp+

lemma release_in_comments:
  "scan (match_in (plain_match [''free'', ''delete'']) in_comment) unsafe_c_code_lines
     = [(15, 54, 4), (50, 18, 4)]"
  "scan (match_in (plain_match [''free'', ''delete'']) in_comment) test_cpp_issues_lines
     = [(57, 17, 6)]"
  by code_simp+

lemma allocation_sites:
  "scan (match_in alloc_match in_code) unsafe_c_code_lines = [(15, 19, 6)]"
  "scan (match_in alloc_match in_code) test_cpp_issues_lines = [(16, 25, 6)]"
  by code_simp+

lemma allocation_receivers:
  "span_text unsafe_c_code_lines (15, 19, 6) = ''malloc''"
  "receiver (rev (take 18 (unsafe_c_code_lines ! 14))) = ''greet''"
  "span_text test_cpp_issues_lines (16, 25, 6) = ''malloc''"
  "receiver (rev (take 24 (test_cpp_issues_lines ! 15))) = ''buffer''"
  by code_simp+

lemma leak_findings:
  "POSSIBLE_MEMORY_LEAK unsafe_c_code_lines = [(15, 19, 6)]"
  "POSSIBLE_MEMORY_LEAK test_cpp_issues_lines = [(16, 25, 6)]"
  by code_simp+

subsection \<open>DEBUG_PRINT\<close>

lemma debug_findings:
  "scan DEBUG_PRINT test_cpp_issues_lines = []"
  "scan DEBUG_PRINT_nocase test_cpp_issues_lines = [(38, 9, 4)]"
  by code_simp+

lemma debug_statement:
  "span_text test_cpp_issues_lines (38, 9, 4) = ''cout''"
  "statement_literals (drop 8 (test_cpp_issues_lines ! 37))
     (drop 8 (lex_lines Code test_cpp_issues_lines ! 37)) = [''Debug mode active'']"
  by code_simp+

lemma debug_literal_facts:
  "\<not> debug_literal ''Debug mode active''"
  "\<not> contains ''debug'' ''Debug mode active''"
  "\<not> contains ''DEBUG'' ''Debug mode active''"
  "contains ''Debug'' ''Debug mode active''"
  "debug_literal_nocase ''Debug mode active''"
  by code_simp+

subsection \<open>Comment-scan\<close>

lemma todo_findings: "scan TODO_COMMENT test_cpp_issues_lines = [(39, 12, 4), (39, 46, 4)]"
  by code_simp

lemma test_leftover_findings:
  "scan TEST_LEFTOVER_COMMENT test_cpp_issues_lines
     = [(36, 8, 5), (36, 14, 4), (36, 31, 4), (47, 8, 4)]"
  by code_simp

lemma comment_spans:
  "map (span_text test_cpp_issues_lines) [(39, 12, 4), (36, 8, 5), (36, 14, 4), (47, 8, 4)]
     = [''TODO'', ''hello'', ''test'', ''test'']"
  "map (span_states test_cpp_issues_lines) [(39, 12, 4), (36, 8, 5), (36, 14, 4), (47, 8, 4)]
     = [replicate 4 LineComment, replicate 5 LineComment, replicate 4 LineComment,
        replicate 4 LineComment]"
  by code_simp+

section \<open>The claims about the programs\<close>

text \<open>
  C1, counterexample. The claim lets every divisor but zero give the truncated quotient.
  At \<open>a = INT_MIN\<close>, \<open>b = -1\<close> the divisor is not zero and the truncated quotient,
  2147483648, is no \<open>int\<close>: the division has no value, in either \<open>divide\<close>.
\<close>

theorem divide_int_min_counterexample:
  "(- 1 :: cint) \<noteq> 0
   \<and> divide_c (- 2147483648) (- 1) = Inl SignedOverflow
   \<and> UnsafeClass_divide \<lparr>buffer = Blk 0\<rparr> (- 2147483648) (- 1) = Inl SignedOverflow
   \<and> sint (- 2147483648 :: cint) sdiv sint (- 1 :: cint) = 2147483648
   \<and> \<not> int_fits 2147483648"
  by (simp add: divide_c_def UnsafeClass_divide_def c_div_overflow int_fits_def)

text \<open>
  C1, as amended. Neither \<open>divide\<close> checks its divisor. For every \<open>a\<close> and every \<open>b\<close> other
  than zero, \<open>INT_MIN / -1\<close> left out, both return the quotient truncated towards zero: the
  \<open>q\<close> with \<open>a = q * b + r\<close>, \<open>|r| < |b|\<close> and \<open>r\<close> zero or of the sign of \<open>a\<close>. A zero divisor
  takes the fault branch. \<open>main\<close> of the C++ fixture calls \<open>obj.divide(10, 0)\<close> on every run
  that gets past lines 45 to 49 (every run whose input is not empty and whose first line
  is shorter than 50 bytes), stops there with the division fault, and so never returns.
\<close>

theorem divide_truncates_unchecked:
  "(b \<noteq> 0 \<and> \<not> (a = - 2147483648 \<and> b = - 1) \<longrightarrow>
      (\<exists>q. divide_c a b = Inr q \<and> UnsafeClass_divide this a b = Inr q
           \<and> sint q = sint a sdiv sint b
           \<and> \<bar>sint a - sint q * sint b\<bar> < \<bar>sint b\<bar>
           \<and> (sint a - sint q * sint b = 0 \<or> sgn (sint a - sint q * sint b) = sgn (sint a))))
   \<and> divide_c a 0 = Inl DivideByZero
   \<and> UnsafeClass_divide this a 0 = Inl DivideByZero
   \<and> (cpp_main_45_49 w = Return obj w' \<longrightarrow> cpp_main w = Crash DivideByZero (cpp_main_51 w'))
   \<and> (stdin w \<noteq> [] \<and> length (takeWhile (\<lambda>c. c \<noteq> NL) (stdin w)) < 50 \<longrightarrow>
        (\<exists>w'. cpp_main w = Crash DivideByZero w'))
   \<and> (\<forall>v u. cpp_main w \<noteq> Return v u)"
proof -
  have quotient: "\<exists>q. divide_c a b = Inr q \<and> UnsafeClass_divide this a b = Inr q
           \<and> sint q = sint a sdiv sint b
           \<and> \<bar>sint a - sint q * sint b\<bar> < \<bar>sint b\<bar>
           \<and> (sint a - sint q * sint b = 0 \<or> sgn (sint a - sint q * sint b) = sgn (sint a))"
    if h: "b \<noteq> 0" "\<not> (a = - 2147483648 \<and> b = - 1)"
  proof -
    have nz: "sint b \<noteq> 0" using h(1) by (simp add: signed_eq_0_iff)
    show ?thesis
      using c_div_value [OF h] sdiv_remainder [OF nz, of "sint a"]
      by (simp add: divide_c_def UnsafeClass_divide_def)
  qed
  have reach: "\<exists>w'. cpp_main w = Crash DivideByZero w'"
    if "stdin w \<noteq> []" "length (takeWhile (\<lambda>c. c \<noteq> NL) (stdin w)) < 50"
    using cpp_main_after_49 [OF cpp_main_45_49_run [OF that]] by blast
  show ?thesis
    using quotient reach cpp_main_after_49 [of w obj w'] cpp_main_never_returns [of w]
    by (simp add: divide_c_def UnsafeClass_divide_def c_div_zero)
qed

theorem divide_truncates_unchecked_witness:
  "(\<exists>q. divide_c (- 7) 2 = Inr q \<and> UnsafeClass_divide \<lparr>buffer = Blk 0\<rparr> (- 7) 2 = Inr q
        \<and> sint q = - 3)
   \<and> UnsafeClass_divide \<lparr>buffer = Blk 0\<rparr> 10 0 = Inl DivideByZero
   \<and> (\<exists>obj w'. cpp_main_45_49 (start ''bob'') = Return obj w'
          \<and> cpp_main (start ''bob'') = Crash DivideByZero (cpp_main_51 w'))"
proof -
  have d: "(2 :: cint) \<noteq> 0 \<and> \<not> ((- 7 :: cint) = - 2147483648 \<and> (2 :: cint) = - 1)"
    by simp
  have i: "stdin (start ''bob'') \<noteq> []"
    "length (takeWhile (\<lambda>c. c \<noteq> NL) (stdin (start ''bob''))) < 50"
    by (simp_all add: start_def)
  obtain obj w' where p: "cpp_main_45_49 (start ''bob'') = Return obj w'"
    using cpp_main_45_49_run [OF i] by blast
  show ?thesis
    using d i p
      divide_truncates_unchecked [of 2 "- 7" "\<lparr>buffer = Blk 0\<rparr>" "start ''bob''" obj w']
      divide_truncates_unchecked [of 0 10 "\<lparr>buffer = Blk 0\<rparr>" "start ''bob''" obj w']
    by auto
qed

text \<open>
  C4. \<open>gets\<close> stores a line with no regard for the size of the array. In the C fixture
  \<open>getUserInput\<close>, given the 10-byte array \<open>name\<close> of \<open>main\<close>, writes past its end for every
  line of 10 bytes or more (and for no shorter one); in the C++ fixture \<open>unsafeInput\<close>
  writes past the end of its 50-byte array \<open>input\<close> for every line of 50 bytes or more
  (and for no shorter one).
\<close>

theorem gets_overflows_fixed_arrays:
  "(10 \<le> length (takeWhile (\<lambda>c. c \<noteq> NL) (stdin w)) \<longrightarrow>
      getUserInput (fst (c_main_name w)) (snd (c_main_name w)) =
        Crash BufferOverflow
          (w\<lparr>mem := mem w @ [replicate 10 None], stdout := stdout w @ ''Enter your name: ''\<rparr>))
   \<and> (stdin w \<noteq> [] \<and> length (takeWhile (\<lambda>c. c \<noteq> NL) (stdin w)) < 10 \<longrightarrow>
        (\<exists>w'. getUserInput (fst (c_main_name w)) (snd (c_main_name w)) = Return () w'))
   \<and> (50 \<le> length (takeWhile (\<lambda>c. c \<noteq> NL) (stdin w)) \<longrightarrow>
        unsafeInput this w =
          Crash BufferOverflow
            (w\<lparr>mem := mem w @ [replicate 50 None], stdout := stdout w @ ''Enter data: ''\<rparr>))
   \<and> (buffer this = Blk b \<and> b < length (mem w) \<and> 50 \<le> length (mem w ! b) \<and> stdin w \<noteq> []
        \<and> length (takeWhile (\<lambda>c. c \<noteq> NL) (stdin w)) < 50 \<longrightarrow>
        (\<exists>w'. unsafeInput this w = Return () w'))"
  using getUserInput_overflow [of w] getUserInput_fits [of w] unsafeInput_overflow [of w this]
    unsafeInput_run [of this b w]
  by simp

theorem gets_overflows_fixed_arrays_witness:
  "(\<exists>w'. getUserInput (fst (c_main_name (start ''0123456789'')))
            (snd (c_main_name (start ''0123456789''))) = Crash BufferOverflow w')
   \<and> (\<exists>w'. getUserInput (fst (c_main_name (start ''012345678'')))
            (snd (c_main_name (start ''012345678''))) = Return () w')
   \<and> (\<exists>w'. unsafeInput \<lparr>buffer = Blk 0\<rparr>
            (\<lparr>mem = [replicate 100 None], stdin = replicate 50 CHR ''a'', stdout = []\<rparr>)
          = Crash BufferOverflow w')
   \<and> (\<exists>w'. unsafeInput \<lparr>buffer = Blk 0\<rparr>
            (\<lparr>mem = [replicate 100 None], stdin = replicate 49 CHR ''a'', stdout = []\<rparr>)
          = Return () w')"
  using gets_overflows_fixed_arrays [of "start ''0123456789''"]
    gets_overflows_fixed_arrays [of "start ''012345678''"]
    gets_overflows_fixed_arrays
      [of "\<lparr>mem = [replicate 100 None], stdin = replicate 50 CHR ''a'', stdout = []\<rparr>"
          "\<lparr>buffer = Blk 0\<rparr>"]
    gets_overflows_fixed_arrays
      [of "\<lparr>mem = [replicate 100 None], stdin = replicate 49 CHR ''a'', stdout = []\<rparr>"
          "\<lparr>buffer = Blk 0\<rparr>" 0]
  by (simp add: start_def)

text \<open>
  C10. For every string \<open>name\<close> of at most 43 bytes, \<open>buildGreeting\<close> returns a pointer to a
  new block of 50 bytes that holds \<open>"Hello "\<close> followed by \<open>name\<close>; the store it was given
  is as it was, the caller's array with it (and so is what \<open>name\<close> points to), and nothing
  is read or printed.
\<close>

theorem buildGreeting_greets:
  assumes "string_at w name = Inr s" and "length s \<le> 43"
  shows "\<exists>w'. buildGreeting name w = Return (Blk (length (mem w))) w'
            \<and> length (mem w') = Suc (length (mem w))
            \<and> length (mem w' ! length (mem w)) = 50
            \<and> string_at w' (Blk (length (mem w))) = Inr (''Hello '' @ s)
            \<and> take (length (mem w)) (mem w') = mem w
            \<and> string_at w' name = Inr s
            \<and> stdin w' = stdin w \<and> stdout w' = stdout w"
proof -
  let ?w' = "w\<lparr>mem := mem w @ [map Some (''Hello '' @ s) @ Some NUL # replicate (43 - length s) None]\<rparr>"
  have n: "NUL \<notin> set s" by (rule string_at_no_NUL [OF assms(1)])
  have g: "string_at ?w' (Blk (length (mem w))) = Inr (''Hello '' @ s)"
    by (rule string_at_fresh) (use n in simp)
  have k: "string_at ?w' name = Inr s"
    by (rule string_at_alloc [OF assms(1)])
  show ?thesis
    using buildGreeting_run [OF assms] g k assms(2) by simp
qed

theorem buildGreeting_greets_witness:
  "\<exists>w'. buildGreeting (Lit ''bob'') (start []) = Return (Blk 0) w'
        \<and> string_at w' (Blk 0) = Inr ''Hello bob''"
proof -
  have h: "string_at (start []) (Lit ''bob'') = Inr ''bob''"
    by (simp add: string_at_def)
  show ?thesis
    using buildGreeting_greets [OF h] by (auto simp: start_def)
qed

section \<open>The claims about the rules\<close>

text \<open>
  C2. Both files meet the Token-near-literal condition of HARDCODED_SECRET. In the C file
  the identifier \<open>global_password\<close> (it contains \<open>password\<close>) stands in code at line 5,
  column 6; the 7 bytes \<^verbatim>\<open>[20] = \<close> after it hold the assignment operator, and the literal
  \<open>"admin123"\<close>, 8 bytes long, starts at column 28, where the rule reports. In the C++ file
  the identifier \<open>api_secret\<close> (it contains \<open>secret\<close>) stands in code at line 8, column 8;
  the operator follows in the next 3 bytes, and the literal \<open>"sk-abc123456789"\<close>, 15 bytes
  long, starts at column 21, where the rule reports.
\<close>

theorem hardcoded_secret_in_both:
  \<open>scan HARDCODED_SECRET unsafe_c_code_lines = [(5, 28, 10)]
   \<and> scan (match_in (word_match [''global_password'']) in_code) unsafe_c_code_lines = [(5, 6, 15)]
   \<and> contains ''password'' ''global_password'' \<and> ''password'' \<in> set secret_names
   \<and> span_text unsafe_c_code_lines (5, 21, 7) = ''[20] = ''
   \<and> literal_body (span_text unsafe_c_code_lines (5, 28, 10)) = ''admin123''
   \<and> length ''admin123'' = 8
   \<and> take 38 (unsafe_c_code_lines ! 4) = ''char global_password[20] = "admin123";''
   \<and> scan HARDCODED_SECRET test_cpp_issues_lines = [(8, 21, 17)]
   \<and> scan (match_in (word_match [''api_secret'']) in_code) test_cpp_issues_lines
        = [(8, 8, 10), (51, 31, 10)]
   \<and> contains ''secret'' ''api_secret'' \<and> ''secret'' \<in> set secret_names
   \<and> span_text test_cpp_issues_lines (8, 18, 3) = '' = ''
   \<and> literal_body (span_text test_cpp_issues_lines (8, 21, 17)) = ''sk-abc123456789''
   \<and> length ''sk-abc123456789'' = 15
   \<and> take 38 (test_cpp_issues_lines ! 7) = ''string api_secret = "sk-abc123456789";''\<close>
  using c_secret_findings cpp_secret_findings c_secret_identifier cpp_secret_identifier
    c_secret_line cpp_secret_line secret_spans secret_names_match
  by simp

text \<open>
  C3. The two functions that build a query copy their input into it as it is. For every
  string \<open>s\<close> the argument points to (a string has no null byte), of at most 163 bytes for
  \<open>queryDatabase\<close> and 164 for \<open>processData\<close>, so that the result and its terminating null
  fit the 200 bytes of \<open>query\<close>: \<open>sprintf\<close> leaves in \<open>query\<close> the string
  \<^verbatim>\<open>SELECT * FROM users WHERE name = '\<close> followed by \<open>s\<close> and \<^verbatim>\<open>';\<close> (C) or \<^verbatim>\<open>'\<close> (C++), and the
  function prints it and returns. A longer string overflows \<open>query\<close>. The format literals
  are those of the text of the files, at line 24 and line 28, and both contain \<open>SELECT\<close>
  and \<open>%s\<close>: FORMATTED_QUERY reports the two calls of \<open>sprintf\<close>.
\<close>

theorem queries_interpolate_verbatim:
  "(string_at w p = Inr s \<and> length s \<le> 163 \<longrightarrow>
      (\<exists>w'. sprintf (fst (alloc 200 w)) queryDatabase_format [AStr p] (snd (alloc 200 w))
               = Return () w'
            \<and> string_at w' (fst (alloc 200 w))
               = Inr (''SELECT * FROM users WHERE name = '' @ [QUOTE] @ s @ [QUOTE, CHR '';'']))
      \<and> queryDatabase p w =
           Return () (w\<lparr>stdout := stdout w @ ''Executing query: '' @
              ''SELECT * FROM users WHERE name = '' @ [QUOTE] @ s @ [QUOTE, CHR '';''] @ [NL]\<rparr>))
   \<and> (string_at w p = Inr s \<and> 163 < length s \<longrightarrow>
        (\<exists>w'. queryDatabase p w = Crash BufferOverflow w'))
   \<and> (string_at w p = Inr s \<and> length s \<le> 164 \<longrightarrow>
      (\<exists>w'. sprintf (fst (alloc 200 w)) processData_format [AStr p] (snd (alloc 200 w))
               = Return () w'
            \<and> string_at w' (fst (alloc 200 w))
               = Inr (''SELECT * FROM users WHERE name = '' @ [QUOTE] @ s @ [QUOTE]))
      \<and> processData this p w =
           Return () (w\<lparr>stdout := stdout w @
              ''SELECT * FROM users WHERE name = '' @ [QUOTE] @ s @ [QUOTE] @ [NL]\<rparr>))
   \<and> (string_at w p = Inr s \<and> 164 < length s \<longrightarrow>
        (\<exists>w'. processData this p w = Crash BufferOverflow w'))
   \<and> query_literal queryDatabase_format
   \<and> contains ''SELECT'' queryDatabase_format \<and> contains ''%s'' queryDatabase_format
   \<and> query_literal processData_format
   \<and> contains ''SELECT'' processData_format \<and> contains ''%s'' processData_format
   \<and> scan FORMATTED_QUERY unsafe_c_code_lines = [(24, 5, 7)]
   \<and> span_text unsafe_c_code_lines (24, 5, 7) = ''sprintf''
   \<and> statement_literals (drop 4 (unsafe_c_code_lines ! 23))
        (drop 4 (lex_lines Code unsafe_c_code_lines ! 23)) = [queryDatabase_format]
   \<and> scan FORMATTED_QUERY test_cpp_issues_lines = [(28, 9, 7)]
   \<and> span_text test_cpp_issues_lines (28, 9, 7) = ''sprintf''
   \<and> statement_literals (drop 8 (test_cpp_issues_lines ! 27))
        (drop 8 (lex_lines Code test_cpp_issues_lines ! 27)) = [processData_format]"
proof -
  have c: "(\<exists>w'. sprintf (fst (alloc 200 w)) queryDatabase_format [AStr p] (snd (alloc 200 w))
               = Return () w'
            \<and> string_at w' (fst (alloc 200 w))
               = Inr (''SELECT * FROM users WHERE name = '' @ [QUOTE] @ s @ [QUOTE, CHR '';'']))
      \<and> queryDatabase p w =
           Return () (w\<lparr>stdout := stdout w @ ''Executing query: '' @
              ''SELECT * FROM users WHERE name = '' @ [QUOTE] @ s @ [QUOTE, CHR '';''] @ [NL]\<rparr>)"
    if "string_at w p = Inr s" "length s \<le> 163"
    using queryDatabase_buffer [OF that] queryDatabase_run [OF that] by blast
  have cpp: "(\<exists>w'. sprintf (fst (alloc 200 w)) processData_format [AStr p] (snd (alloc 200 w))
               = Return () w'
            \<and> string_at w' (fst (alloc 200 w))
               = Inr (''SELECT * FROM users WHERE name = '' @ [QUOTE] @ s @ [QUOTE]))
      \<and> processData this p w =
           Return () (w\<lparr>stdout := stdout w @
              ''SELECT * FROM users WHERE name = '' @ [QUOTE] @ s @ [QUOTE] @ [NL]\<rparr>)"
    if "string_at w p = Inr s" "length s \<le> 164"
    using processData_buffer [OF that] processData_run [OF that] by blast
  show ?thesis
    using c cpp queryDatabase_overflow [of w p s] processData_overflow [of w p s this]
      query_formats_match c_query_findings cpp_query_findings query_formats_in_text
    by blast
qed

theorem queries_interpolate_verbatim_witness:
  "queryDatabase (Lit ''x' OR '1'='1'') (start []) =
     Return () (start []\<lparr>stdout :=
       ''Executing query: SELECT * FROM users WHERE name = 'x' OR '1'='1'' @ [QUOTE] @ '';'' @ [NL]\<rparr>)
   \<and> processData \<lparr>buffer = Blk 0\<rparr> (Lit ''admin'; DROP TABLE users; --'') (start []) =
     Return () (start []\<lparr>stdout :=
       ''SELECT * FROM users WHERE name = 'admin'; DROP TABLE users; --'' @ [QUOTE] @ [NL]\<rparr>)
   \<and> (\<exists>w'. queryDatabase (Lit (replicate 164 CHR ''a'')) (start []) = Crash BufferOverflow w')
   \<and> (\<exists>w'. processData \<lparr>buffer = Blk 0\<rparr> (Lit (replicate 165 CHR ''a'')) (start [])
          = Crash BufferOverflow w')"
proof -
  have 1: "string_at (start []) (Lit ''x' OR '1'='1'') = Inr ''x' OR '1'='1''
           \<and> length ''x' OR '1'='1'' \<le> 163"
    by (simp add: string_at_def)
  have 2: "string_at (start []) (Lit ''admin'; DROP TABLE users; --'')
             = Inr ''admin'; DROP TABLE users; --''
           \<and> length ''admin'; DROP TABLE users; --'' \<le> 164"
    by (simp add: string_at_def)
  have 3: "string_at (start []) (Lit (replicate 164 CHR ''a'')) = Inr (replicate 164 CHR ''a'')
           \<and> 163 < length (replicate 164 CHR ''a'')"
    by (simp add: string_at_def takeWhile_eq_all_conv)
  have 4: "string_at (start []) (Lit (replicate 165 CHR ''a'')) = Inr (replicate 165 CHR ''a'')
           \<and> 164 < length (replicate 165 CHR ''a'')"
    by (simp add: string_at_def takeWhile_eq_all_conv)
  show ?thesis
    using 1 2 3 4
      queries_interpolate_verbatim [of "start []" "Lit ''x' OR '1'='1''" "''x' OR '1'='1''"]
      queries_interpolate_verbatim
        [of "start []" "Lit ''admin'; DROP TABLE users; --''" "''admin'; DROP TABLE users; --''"
            "\<lparr>buffer = Blk 0\<rparr>"]
      queries_interpolate_verbatim
        [of "start []" "Lit (replicate 164 CHR ''a'')" "replicate 164 CHR ''a''"]
      queries_interpolate_verbatim
        [of "start []" "Lit (replicate 165 CHR ''a'')" "replicate 165 CHR ''a''"
            "\<lparr>buffer = Blk 0\<rparr>"]
    by (simp add: start_def)
qed

text \<open>
  C5. In \<open>main\<close> of the C fixture \<open>result\<close> is declared at line 35 with no initializer and
  read at line 38, as an argument of \<open>printf\<close>. These are the only two places of the file
  where the identifier stands in code, so nothing assigns it, before the read or after.
  With indeterminate scalars as \<open>None\<close> the read yields \<open>None\<close>: whatever the input,
  \<open>main\<close> stops at line 38 with the fault of an uninitialized read, nothing printed.
\<close>

theorem result_read_uninitialized:
  \<open>c_main w = Crash UninitializedRead (snd (c_main_name w))
   \<and> stdout (snd (c_main_name w)) = stdout w
   \<and> read_var (None :: cint option) w = Crash UninitializedRead w
   \<and> scan (match_in (word_match [''result'']) in_code) unsafe_c_code_lines
        = [(35, 15, 6), (38, 43, 6)]
   \<and> unsafe_c_code_lines ! 34 = ''    int x, y, result;''
   \<and> unsafe_c_code_lines ! 37
        = ''    printf("Uninitialized result = %d'' @ [BACKSLASH] @ ''n", result);''\<close>
  using c_main_stops [of w] result_occurrences result_lines
  by (simp add: c_main_name_def alloc_def read_var_def)

text \<open>
  C6. Outside comments neither file has the bytes \<open>free\<close> or \<open>delete\<close> anywhere (the C file
  has \<open>free\<close> twice and the C++ file \<open>delete\<close> once, all three in comments). Each file has
  one allocation site in code, \<open>malloc\<close> at line 15 of the C file, received by \<open>greet\<close>,
  and \<open>malloc\<close> at line 16 of the C++ file, received by \<open>buffer\<close>; the block around
  neither has a release of its receiver, and the leak heuristic reports both sites.
\<close>

theorem no_release_so_leak_reported:
  "scan (match_in (plain_match [''free'', ''delete'']) outside_comment) unsafe_c_code_lines = []
   \<and> scan (match_in (plain_match [''free'', ''delete'']) outside_comment) test_cpp_issues_lines = []
   \<and> scan (match_in (plain_match [''free'', ''delete'']) in_comment) unsafe_c_code_lines
        = [(15, 54, 4), (50, 18, 4)]
   \<and> scan (match_in (plain_match [''free'', ''delete'']) in_comment) test_cpp_issues_lines
        = [(57, 17, 6)]
   \<and> scan (match_in alloc_match in_code) unsafe_c_code_lines = [(15, 19, 6)]
   \<and> span_text unsafe_c_code_lines (15, 19, 6) = ''malloc''
   \<and> receiver (rev (take 18 (unsafe_c_code_lines ! 14))) = ''greet''
   \<and> POSSIBLE_MEMORY_LEAK unsafe_c_code_lines = [(15, 19, 6)]
   \<and> scan (match_in alloc_match in_code) test_cpp_issues_lines = [(16, 25, 6)]
   \<and> span_text test_cpp_issues_lines (16, 25, 6) = ''malloc''
   \<and> receiver (rev (take 24 (test_cpp_issues_lines ! 15))) = ''buffer''
   \<and> POSSIBLE_MEMORY_LEAK test_cpp_issues_lines = [(16, 25, 6)]"
  using no_release_outside_comments release_in_comments allocation_sites allocation_receivers
    leak_findings
  by simp

text \<open>
  C7. \<open>api_secret\<close> is initialized to \<open>"sk-abc123456789"\<close> at line 8 and stands in code at
  one other place, line 51, where it is printed: nothing writes it. Every run of \<open>main\<close>
  that reaches line 51 prints the line \<open>API Secret: sk-abc123456789\<close> there, and stops
  two lines further at the division, so that the output of the program contains it. The
  runs that reach line 51 are those whose input is not empty and whose first line is
  shorter than 50 bytes, and the whole output of such a run is the same whatever the
  input.
\<close>

theorem api_secret_always_printed:
  \<open>(cpp_main_45_49 w = Return obj w' \<longrightarrow>
      cpp_main w = Crash DivideByZero (cpp_main_51 w')
      \<and> stdout (cpp_main_51 w') = stdout w' @ ''API Secret: sk-abc123456789'' @ [NL]
      \<and> sublist ''API Secret: sk-abc123456789'' (stdout (cpp_main_51 w')))
   \<and> (input \<noteq> [] \<and> length (takeWhile (\<lambda>c. c \<noteq> NL) input) < 50 \<longrightarrow>
        (\<exists>u. cpp_main (start input) = Crash DivideByZero u
            \<and> stdout u = ''Enter data: '' @ ''SELECT * FROM users WHERE name = '' @ [QUOTE]
                 @ ''admin'; DROP TABLE users; --'' @ [QUOTE] @ [NL]
                 @ ''API Secret: sk-abc123456789'' @ [NL]))
   \<and> api_secret = ''sk-abc123456789''
   \<and> scan (match_in (word_match [''api_secret'']) in_code) test_cpp_issues_lines
        = [(8, 8, 10), (51, 31, 10)]
   \<and> take 38 (test_cpp_issues_lines ! 7) = ''string api_secret = "sk-abc123456789";''
   \<and> take 49 (test_cpp_issues_lines ! 50)
        = ''    cout << "API Secret: " << api_secret << endl;''\<close>
proof -
  have s: "sublist ''API Secret: sk-abc123456789'' (stdout (cpp_main_51 w'))"
    unfolding cpp_main_51_stdout by (rule sublist_appendI)
  have r: "\<exists>u. cpp_main (start input) = Crash DivideByZero u
            \<and> stdout u = ''Enter data: '' @ ''SELECT * FROM users WHERE name = '' @ [QUOTE]
                 @ ''admin'; DROP TABLE users; --'' @ [QUOTE] @ [NL]
                 @ ''API Secret: sk-abc123456789'' @ [NL]"
    if "input \<noteq> []" "length (takeWhile (\<lambda>c. c \<noteq> NL) input) < 50"
    by (rule cpp_main_run [OF that])
  show ?thesis
    using s r cpp_main_after_49 [of w obj w'] cpp_main_51_stdout [of w'] cpp_secret_identifier
      api_secret_lines
    by (simp add: api_secret_def)
qed

theorem api_secret_always_printed_witness:
  "\<exists>u. cpp_main (start ''bob'') = Crash DivideByZero u
      \<and> sublist ''API Secret: sk-abc123456789'' (stdout u)
      \<and> stdout u = ''Enter data: '' @ ''SELECT * FROM users WHERE name = '' @ [QUOTE]
            @ ''admin'; DROP TABLE users; --'' @ [QUOTE] @ [NL]
            @ ''API Secret: sk-abc123456789'' @ [NL]"
proof -
  have i: "stdin (start ''bob'') \<noteq> []"
    "length (takeWhile (\<lambda>c. c \<noteq> NL) (stdin (start ''bob''))) < 50"
    by (simp_all add: start_def)
  have k: "''bob'' \<noteq> [] \<and> length (takeWhile (\<lambda>c. c \<noteq> NL) ''bob'') < 50"
    by simp
  obtain obj w' where p: "cpp_main_45_49 (start ''bob'') = Return obj w'"
    using cpp_main_45_49_run [OF i] by blast
  show ?thesis
    using p k api_secret_always_printed [of "start ''bob''" obj w' "''bob''"] by auto
qed

text \<open>
  C8, counterexample. The literal of the \<open>cout\<close> statement at line 38 is \<open>Debug mode active\<close>.
  It contains neither \<open>debug\<close> nor \<open>DEBUG\<close>, the two alternatives of the pattern, and
  DEBUG_PRINT reports nothing in the C++ file.
\<close>

theorem debug_print_counterexample:
  "statement_literals (drop 8 (test_cpp_issues_lines ! 37))
     (drop 8 (lex_lines Code test_cpp_issues_lines ! 37)) = [''Debug mode active'']
   \<and> \<not> contains ''debug'' ''Debug mode active''
   \<and> \<not> contains ''DEBUG'' ''Debug mode active''
   \<and> \<not> debug_literal ''Debug mode active''
   \<and> scan DEBUG_PRINT test_cpp_issues_lines = []"
  using debug_statement debug_literal_facts debug_findings by simp

text \<open>
  C8, as amended. The \<open>cout\<close> statement at line 38 of the C++ file is an output primitive
  in code whose literal is \<open>Debug mode active\<close>. The literal contains \<open>Debug\<close>: it matches
  \<open>debug|DEBUG\<close> when the case of the letters is ignored, and then the rule reports the
  statement, and nothing else in the file; matched as it is written, the pattern reports
  nothing in the file.
\<close>

theorem debug_print_matches_without_case:
  "span_text test_cpp_issues_lines (38, 9, 4) = ''cout''
   \<and> ''cout'' \<in> set output_primitives
   \<and> statement_literals (drop 8 (test_cpp_issues_lines ! 37))
        (drop 8 (lex_lines Code test_cpp_issues_lines ! 37)) = [''Debug mode active'']
   \<and> contains ''Debug'' ''Debug mode active''
   \<and> debug_literal_nocase ''Debug mode active''
   \<and> scan DEBUG_PRINT_nocase test_cpp_issues_lines = [(38, 9, 4)]
   \<and> scan DEBUG_PRINT test_cpp_issues_lines = []"
  using debug_statement debug_literal_facts debug_findings
  by (simp add: output_primitives_def)

text \<open>
  C9. In the C++ file the spans \<open>TODO\<close> (line 39, column 12), \<open>hello\<close> and \<open>test\<close> (line 36,
  columns 8 and 14) and \<open>test\<close> (line 47, column 8) lie byte for byte in the state
  \<open>line_comment\<close>, and the two Comment-scan rules report them: TODO_COMMENT the first,
  TEST_LEFTOVER_COMMENT the other three.
\<close>

theorem comment_scan_fires:
  "scan TODO_COMMENT test_cpp_issues_lines = [(39, 12, 4), (39, 46, 4)]
   \<and> scan TEST_LEFTOVER_COMMENT test_cpp_issues_lines
        = [(36, 8, 5), (36, 14, 4), (36, 31, 4), (47, 8, 4)]
   \<and> map (span_text test_cpp_issues_lines) [(39, 12, 4), (36, 8, 5), (36, 14, 4), (47, 8, 4)]
        = [''TODO'', ''hello'', ''test'', ''test'']
   \<and> map (span_states test_cpp_issues_lines) [(39, 12, 4), (36, 8, 5), (36, 14, 4), (47, 8, 4)]
        = [replicate 4 LineComment, replicate 5 LineComment, replicate 4 LineComment,
           replicate 4 LineComment]"
  using todo_findings test_leftover_findings comment_spans by simp

end
